theory Spec2Isabelle
  imports Complex_Main
begin

section \<open>AuraCast front end: the page controller of the episode explorer\<close>

text \<open>
  The development embeds the page script of the episode explorer (parse, episode list,
  generate episode, result, history, interrupt) as functions on an explicit page state,
  and next to it the parts of the first-generation script that differ.
  Every event listener and every promise or timer callback of the script is one state
  transformer; what the environment decides (HTTP outcomes, the clock, whether the local
  store accepts a write) is an argument of the transformer.
\<close>

subsection \<open>JavaScript strings\<close>

text \<open>
  Strings are lists of 8-bit characters, one per code unit; the script only ever handles
  file names, server messages and typed questions. The one code unit of the script outside
  this range, the horizontal ellipsis of \<open>formatFileName\<close>, is represented by the single
  character \<open>0x85\<close>, so that lengths agree with the script's.
\<close>

definition ellipsis :: string where
  "ellipsis = [CHR 0x85]"

text \<open>\<open>String.prototype.trim\<close>: white space and line terminators, within the 8-bit range.\<close>

definition is_whitespace :: "char \<Rightarrow> bool" where
  "is_whitespace c = (List.member [CHR 0x09, CHR 0x0A, CHR 0x0B, CHR 0x0C, CHR 0x0D, CHR 0x20, CHR 0xA0] c)"

definition trim :: "string \<Rightarrow> string" where
  "trim s = rev (dropWhile is_whitespace (rev (dropWhile is_whitespace s)))"

text \<open>\<open>String.prototype.toLowerCase\<close>: the letters A..Z, and the upper-case letters of Latin-1.\<close>

definition lower_char :: "char \<Rightarrow> char" where
  "lower_char c =
     (let n = (of_char c :: nat)
      in if 65 \<le> n \<and> n \<le> 90 then char_of (n + 32)
         else if 192 \<le> n \<and> n \<le> 222 \<and> n \<noteq> 215 then char_of (n + 32)
         else c)"

definition toLowerCase :: "string \<Rightarrow> string" where
  "toLowerCase s = map lower_char s"

text \<open>
  \<open>s.split(d)\<close> for a one-character separator: the pieces between the separators, in
  order; the empty string gives one empty piece, so the result is never empty.
\<close>

fun split_on :: "char \<Rightarrow> string \<Rightarrow> string list" where
  "split_on d [] = [[]]"
| "split_on d (c # cs) =
     (if c = d then [] # split_on d cs
      else (case split_on d cs of
              [] \<Rightarrow> [[c]]
            | w # ws \<Rightarrow> (c # w) # ws))"

text \<open>\<open>s.lastIndexOf(d)\<close>: the greatest index holding \<open>d\<close>, or \<open>-1\<close>.\<close>

definition lastIndexOf :: "char \<Rightarrow> string \<Rightarrow> int" where
  "lastIndexOf d s =
     (case filter (\<lambda>i. s ! i = d) (rev [0..<length s]) of
        [] \<Rightarrow> - 1
      | i # _ \<Rightarrow> int i)"

text \<open>
  \<open>String(n)\<close> and string concatenation with a non-negative integer: the decimal digits.
  JavaScript prints exponent notation from \<open>10^21\<close> on; the numbers converted here
  (\<open>maxMb\<close>, episode ids, \<open>Date.now()\<close>) are far below.
\<close>

fun string_of_nat :: "nat \<Rightarrow> string" where
  "string_of_nat n =
     (if n < 10 then [char_of (48 + n)]
      else string_of_nat (n div 10) @ [char_of (48 + n mod 10)])"

declare string_of_nat.simps [simp del]

text \<open>
  Truthiness of a value that is a string, \<open>null\<close> or \<open>undefined\<close>: only a non-empty string
  is truthy. \<open>or_else v d\<close> is \<open>v || d\<close> and \<open>or_null v\<close> is \<open>v || null\<close>.
\<close>

definition truthy :: "string option \<Rightarrow> bool" where
  "truthy v = (case v of None \<Rightarrow> False | Some s \<Rightarrow> s \<noteq> [])"

definition or_else :: "string option \<Rightarrow> string \<Rightarrow> string" where
  "or_else v d = (case v of None \<Rightarrow> d | Some s \<Rightarrow> if s = [] then d else s)"

definition or_null :: "string option \<Rightarrow> string option" where
  "or_null v = (case v of None \<Rightarrow> None | Some s \<Rightarrow> if s = [] then None else Some s)"

text \<open>
  \<open>escapeHtml\<close> writes the text into a detached element and reads its markup back: the
  serialisation of a text node replaces the ampersand, the angle brackets and the
  no-break space.
\<close>

definition escape_char :: "char \<Rightarrow> string" where
  "escape_char c =
     (if c = CHR ''&'' then ''&amp;''
      else if c = CHR ''<'' then ''&lt;''
      else if c = CHR ''>'' then ''&gt;''
      else if c = CHR 0xA0 then ''&nbsp;''
      else [c])"

definition escapeHtml :: "string \<Rightarrow> string" where
  "escapeHtml s = concat (map escape_char s)"

subsection \<open>File validation\<close>

record js_file =
  file_name :: string
  file_size :: nat

definition maxMb :: nat where
  "maxMb = 50"

text \<open>
  The extension the check looks at, \<open>file.name.split(".").pop().toLowerCase()\<close>.
  \<open>split\<close> never returns an empty array, so \<open>pop()\<close> is its last element.
\<close>

definition ext_of :: "string \<Rightarrow> string" where
  "ext_of name = toLowerCase (last (split_on CHR ''.'' name))"

text \<open>
  \<open>validateFile\<close> reads \<open>fileInput.files[0]\<close> and returns the message of the first check
  that fails, or \<open>null\<close>.
\<close>

definition validateFile :: "js_file list \<Rightarrow> string option" where
  "validateFile files =
     (case files of
        [] \<Rightarrow> Some ''Please select a file.''
      | file # _ \<Rightarrow>
          (let ext = ext_of (file_name file)
           in if ext \<noteq> ''pdf'' \<and> ext \<noteq> ''epub''
              then Some ''Only PDF and EPUB files are allowed.''
              else if file_size file > maxMb * 1024 * 1024
              then Some (''File is too large (max '' @ string_of_nat maxMb @ '' MB).'')
              else None))"

subsection \<open>History store\<close>

definition MAX_FILENAME_LENGTH :: nat where
  "MAX_FILENAME_LENGTH = 32"

text \<open>
  \<open>formatFileName\<close>: names longer than 32 code units are cut to a prefix, the ellipsis
  and the extension. \<open>slice\<close> is called with non-negative bounds only, so it is
  \<open>take\<close> and \<open>drop\<close>; \<open>keep\<close> can be negative and is clamped by \<open>Math.max\<close>.
\<close>

definition formatFileName :: "string \<Rightarrow> string" where
  "formatFileName name =
     (if name = [] \<or> length name \<le> MAX_FILENAME_LENGTH then name
      else
        (let i = lastIndexOf CHR ''.'' name;
             ext = (if i > 0 then drop (nat i) name else []);
             name' = (if i > 0 then take (nat i) name else name);
             keep = int MAX_FILENAME_LENGTH - int (length ext) - 3
         in take (nat (max 0 keep)) name' @ ellipsis @ ext))"

record history_entry =
  h_id :: nat
  h_name :: string
  h_fullName :: string
  h_date :: string

text \<open>
  What the local store holds under \<open>HISTORY_KEY\<close>: nothing (or the empty string), text
  that \<open>JSON.parse\<close> rejects, or a serialised list of entries. Both scripts only ever
  write a list there; JSON of another shape (\<open>null\<close>, an object, a number), on which
  \<open>addToHistory\<close> and \<open>renderHistory\<close> would throw, is not represented.
\<close>

datatype stored_history = Absent | Corrupt | Stored "history_entry list"

definition getHistory :: "stored_history \<Rightarrow> history_entry list" where
  "getHistory store =
     (case store of
        Absent \<Rightarrow> []
      | Corrupt \<Rightarrow> []
      | Stored list \<Rightarrow> list)"

text \<open>
  \<open>saveHistory\<close> swallows the exception of \<open>localStorage.setItem\<close>; \<open>accepted\<close> says
  whether the store took the write.
\<close>

definition saveHistory :: "bool \<Rightarrow> history_entry list \<Rightarrow> stored_history \<Rightarrow> stored_history" where
  "saveHistory accepted list store = (if accepted then Stored list else store)"

subsection \<open>Server data\<close>

record episode =
  ep_id :: nat
  ep_title :: "string option"

record script_line =
  speaker :: string
  line_text :: string

text \<open>
  The parsed body of a response. A field the body lacks (or a body that is not JSON, which
  the script replaces by the empty object) is \<open>None\<close>.
\<close>

record resp_data =
  r_error :: "string option"
  r_upload_id :: "string option"
  r_episodes :: "episode list option"
  r_script :: "script_line list option"
  r_audio_url :: "string option"

text \<open>The requests the page sends with \<open>fetch\<close>, with their payloads.\<close>

datatype request =
    ParseRequest "js_file list" string string
  | GeneratePodcastRequest "js_file list" string string
  | GenerateEpisodeRequest "string option" "int option" string
  | AskHostsRequest string "script_line list option"

subsection \<open>Page state\<close>

text \<open>The media element: the attributes the script reads and writes.\<close>

record audio =
  src :: "string option"
  currentTime :: real
  paused :: bool
  audio_hidden :: bool

text \<open>
  One call of \<open>audioPlayer.play()\<close>, recorded with what the player held at the call and
  with the value of \<open>isPlayingInterruptReply\<close> at that moment.
\<close>

record play_call =
  pc_src :: "string option"
  pc_time :: real
  pc_reply_flag :: bool

record chat_row =
  row_host_a :: bool
  row_speaker :: string
  row_text :: string

record episode_item =
  item_episodeId :: string
  item_episodeTitle :: string
  item_selected :: bool

record history_item =
  li_historyId :: string
  li_name :: string
  li_date :: string

text \<open>
  What a timer runs when it fires: the closures the scripts pass to \<open>setTimeout\<close>, with
  the values they capture. The constructors with suffix \<open>V1\<close> are the closures of the
  first-generation script.
\<close>

datatype timer_callback =
    StagedNext nat
  | ResultTransition "script_line list option" "string option" "string option"
  | AppendRow script_line
  | StagedNextV1 nat
  | ResultTransitionV1 "script_line list" "string option"

record timer =
  timer_id :: nat
  timer_delay :: nat
  timer_run :: timer_callback

text \<open>
  The state of the page. The first block is the script's module-level variables. The
  second block is the elements the script uses without a null check; they are taken to
  exist. The third block is the elements the script guards with \<open>if (element)\<close>: \<open>None\<close>
  is an element the page lacks, and for an element of which only the \<open>hidden\<close> (or
  \<open>disabled\<close>) attribute matters, \<open>Some b\<close> is that attribute. The last block is the
  environment: selected files, the local store, pending timers, requests sent and calls of
  \<open>play()\<close>.
\<close>

record page =
  currentUploadId :: "string option"
  currentEpisodes :: "episode list"
  selectedEpisodeId :: "string option"
  selectedEpisodeTitle :: "string option"
  currentEpisodeScript :: "script_line list option"
  currentMainAudioUrl :: "string option"
  savedResumeTime :: real
  isPlayingInterruptReply :: bool
  progressTimeouts :: "nat list"

  errorMessage_text :: string
  errorPanel_hidden :: bool
  resultPanel_hidden :: bool
  progressSection_hidden :: bool
  submitBtn_hidden :: bool
  submitBtn_disabled :: bool
  progressBar_width :: nat
  progressBar_valuenow :: nat
  progressStatus_text :: string
  scriptContent :: "chat_row list"
  historyList :: "history_item list"
  historyEmpty_display :: string
  setting_language :: string
  setting_vibe :: string

  generateEpisodeBtn :: "bool option"
  resultEpisodeTitle :: "(string \<times> bool) option"
  interruptBlock :: "bool option"
  interruptBtn :: "bool option"
  interruptAskForm :: "bool option"
  interruptQuestionInput :: "string option"
  interruptAskSubmit :: "bool option"
  audioPlayer :: "audio option"
  episodeExplorer :: "bool option"
  episodeList :: "episode_item list option"
  episodeSelectedBlock :: "bool option"
  episodePromptInput :: "string option"

  fileInput_files :: "js_file list"
  history_store :: stored_history
  timers :: "timer list"
  nextTimerId :: nat
  sent :: "request list"
  playLog :: "play_call list"

text \<open>\<open>if (el) el.setAttribute("hidden", "")\<close> and \<open>if (el) el.removeAttribute("hidden")\<close>.\<close>

definition set_hidden :: "bool option \<Rightarrow> bool option" where
  "set_hidden el = (case el of None \<Rightarrow> None | Some _ \<Rightarrow> Some True)"

definition remove_hidden :: "bool option \<Rightarrow> bool option" where
  "remove_hidden el = (case el of None \<Rightarrow> None | Some _ \<Rightarrow> Some False)"

text \<open>\<open>if (btn) btn.disabled = false\<close>.\<close>

definition enable :: "bool option \<Rightarrow> bool option" where
  "enable el = (case el of None \<Rightarrow> None | Some _ \<Rightarrow> Some False)"

text \<open>\<open>script && script.length\<close>: the script is loaded and has at least one line.\<close>

definition has_lines :: "script_line list option \<Rightarrow> bool" where
  "has_lines script = (case script of None \<Rightarrow> False | Some lines \<Rightarrow> length lines \<noteq> 0)"

subsection \<open>Timers\<close>

text \<open>
  \<open>setTimeout\<close> registers the callback under a fresh handle and returns the handle;
  \<open>clearTimeout\<close> drops the timer with that handle, if it is still pending.
\<close>

definition setTimeout :: "timer_callback \<Rightarrow> nat \<Rightarrow> page \<Rightarrow> nat \<times> page" where
  "setTimeout cb delay st =
     (nextTimerId st,
      st\<lparr>timers := timers st @ [\<lparr>timer_id = nextTimerId st, timer_delay = delay, timer_run = cb\<rparr>],
         nextTimerId := Suc (nextTimerId st)\<rparr>)"

definition clearTimeout :: "nat \<Rightarrow> page \<Rightarrow> page" where
  "clearTimeout t st = st\<lparr>timers := filter (\<lambda>tm. timer_id tm \<noteq> t) (timers st)\<rparr>"

text \<open>\<open>progressTimeouts.forEach(function (t) { clearTimeout(t); }); progressTimeouts = [];\<close>\<close>

definition clear_progress_timeouts :: "page \<Rightarrow> page" where
  "clear_progress_timeouts st =
     (foldl (\<lambda>s t. clearTimeout t s) st (progressTimeouts st))\<lparr>progressTimeouts := []\<rparr>"

subsection \<open>Error banner and progress\<close>

definition showError :: "string \<Rightarrow> page \<Rightarrow> page" where
  "showError msg st =
     clear_progress_timeouts
       (st\<lparr>errorMessage_text := msg,
           errorPanel_hidden := False,
           resultPanel_hidden := True,
           progressSection_hidden := True,
           submitBtn_hidden := False,
           submitBtn_disabled := False,
           generateEpisodeBtn := enable (generateEpisodeBtn st)\<rparr>)"

definition hideError :: "page \<Rightarrow> page" where
  "hideError st = st\<lparr>errorPanel_hidden := True\<rparr>"

definition setProgress :: "nat \<Rightarrow> string \<Rightarrow> page \<Rightarrow> page" where
  "setProgress percent statusText st =
     st\<lparr>progressBar_width := percent,
        progressBar_valuenow := percent,
        progressStatus_text := statusText\<rparr>"

definition STAGED_MESSAGES :: "(nat \<times> string) list" where
  "STAGED_MESSAGES =
     [(30, ''Extracting text from eBook...''),
      (70, ''AI Hosts analyzing narrative and drafting script...''),
      (95, ''Synthesizing neural voices...'')]"

definition STAGED_DURATION_MS :: nat where
  "STAGED_DURATION_MS = 2400"

definition CHAT_STAGGER_MS :: nat where
  "CHAT_STAGGER_MS = 800"

definition PROGRESS_TRANSITION_MS :: nat where
  "PROGRESS_TRANSITION_MS = 2000"

text \<open>
  The closure \<open>next\<close> of \<open>runStagedProgress\<close>, with its captured counter \<open>stage\<close>. No
  caller passes \<open>onComplete\<close>.
\<close>

definition staged_next :: "nat \<Rightarrow> page \<Rightarrow> page" where
  "staged_next stage st =
     (if stage \<ge> length STAGED_MESSAGES then st
      else
        (let s = STAGED_MESSAGES ! stage;
             st1 = setProgress (fst s) (snd s) st;
             (t, st2) = setTimeout (StagedNext (Suc stage)) STAGED_DURATION_MS st1
         in st2\<lparr>progressTimeouts := progressTimeouts st2 @ [t]\<rparr>))"

definition runStagedProgress :: "page \<Rightarrow> page" where
  "runStagedProgress st = staged_next 0 st"

subsection \<open>History sidebar\<close>

definition renderHistory :: "page \<Rightarrow> page" where
  "renderHistory st =
     (let list = getHistory (history_store st)
      in st\<lparr>historyList :=
               map (\<lambda>item. \<lparr>li_historyId = string_of_nat (h_id item),
                              li_name = escapeHtml (or_else (Some (h_name item)) ''Untitled''),
                              li_date = escapeHtml (or_else (Some (h_date item)) [])\<rparr>) list,
            historyEmpty_display := (if length list \<noteq> 0 then ''none'' else ''block'')\<rparr>)"

text \<open>
  \<open>addToHistory\<close>: the new entry is put in front (\<open>unshift\<close>), the list is cut to its
  first 50 entries, saved and rendered. \<open>now\<close> is \<open>Date.now()\<close>, \<open>date\<close> the formatted
  date, \<open>accepted\<close> whether the store takes the write.
\<close>

definition addToHistory :: "string \<Rightarrow> nat \<Rightarrow> string \<Rightarrow> bool \<Rightarrow> page \<Rightarrow> page" where
  "addToHistory filename now date accepted st =
     (let list = getHistory (history_store st);
          name = or_else (Some (formatFileName filename)) ''Untitled'';
          list1 = \<lparr>h_id = now, h_name = name, h_fullName = filename, h_date = date\<rparr> # list;
          list2 = (if length list1 > 50 then take 50 list1 else list1)
      in renderHistory (st\<lparr>history_store := saveHistory accepted list2 (history_store st)\<rparr>))"

definition removeFromHistory :: "nat \<Rightarrow> bool \<Rightarrow> page \<Rightarrow> page" where
  "removeFromHistory ident accepted st =
     (let list = filter (\<lambda>item. h_id item \<noteq> ident) (getHistory (history_store st))
      in renderHistory (st\<lparr>history_store := saveHistory accepted list (history_store st)\<rparr>))"

subsection \<open>Result presentation\<close>

text \<open>The stagger timers of the chat bubbles: line \<open>i\<close> is appended after \<open>i * CHAT_STAGGER_MS\<close>.\<close>

fun schedule_rows :: "script_line list \<Rightarrow> nat \<Rightarrow> page \<Rightarrow> page" where
  "schedule_rows [] i st = st"
| "schedule_rows (line # rest) i st =
     (let (t, st1) = setTimeout (AppendRow line) (i * CHAT_STAGGER_MS) st
      in schedule_rows rest (Suc i) (st1\<lparr>progressTimeouts := progressTimeouts st1 @ [t]\<rparr>))"

definition append_row :: "script_line \<Rightarrow> page \<Rightarrow> page" where
  "append_row line st =
     st\<lparr>scriptContent := scriptContent st @
          [\<lparr>row_host_a = (speaker line = ''Host A''),
            row_speaker = escapeHtml (speaker line),
            row_text = escapeHtml (line_text line)\<rparr>]\<rparr>"

text \<open>
  The closure that \<open>showResult\<close> runs after \<open>PROGRESS_TRANSITION_MS\<close>. The player is used
  without a null check here: on a page without it the callback stops with a TypeError at
  that statement, and what it did before stays.
\<close>

definition result_transition ::
  "script_line list option \<Rightarrow> string option \<Rightarrow> string option \<Rightarrow> page \<Rightarrow> page" where
  "result_transition script audioUrl episodeTitle st =
     (let st1 = st\<lparr>progressSection_hidden := True,
                    submitBtn_hidden := False,
                    submitBtn_disabled := False,
                    generateEpisodeBtn := enable (generateEpisodeBtn st),
                    errorPanel_hidden := True,
                    resultPanel_hidden := False,
                    resultEpisodeTitle :=
                      (case resultEpisodeTitle st of
                         None \<Rightarrow> None
                       | Some (txt, h) \<Rightarrow>
                           if truthy episodeTitle
                           then Some (''Episode: '' @ or_else episodeTitle [], False)
                           else Some (txt, True)),
                    scriptContent := []\<rparr>
      in case audioPlayer st1 of
           None \<Rightarrow> st1
         | Some a \<Rightarrow>
             (let st2 =
                (if truthy audioUrl
                 then
                   (let st1a = st1\<lparr>audioPlayer := Some (a\<lparr>src := audioUrl, audio_hidden := False\<rparr>)\<rparr>
                    in if interruptBlock st1a \<noteq> None \<and> has_lines (currentEpisodeScript st1a)
                       then st1a\<lparr>interruptBlock := remove_hidden (interruptBlock st1a),
                                 interruptAskForm := set_hidden (interruptAskForm st1a),
                                 interruptBtn := remove_hidden (interruptBtn st1a)\<rparr>
                       else st1a\<lparr>interruptBlock := set_hidden (interruptBlock st1a)\<rparr>)
                 else st1\<lparr>audioPlayer := Some (a\<lparr>src := None, audio_hidden := True\<rparr>),
                          interruptBlock := set_hidden (interruptBlock st1)\<rparr>);
                  st3 = st2\<lparr>savedResumeTime := 0, isPlayingInterruptReply := False\<rparr>
              in schedule_rows (case script of None \<Rightarrow> [] | Some lines \<Rightarrow> lines) 0 st3))"

text \<open>
  \<open>showResult\<close> cancels the timers listed in \<open>progressTimeouts\<close>, stores the script and
  the audio URL, and starts the transition timer. The handle of that timer is dropped: it
  is not pushed to \<open>progressTimeouts\<close>.
\<close>

definition showResult ::
  "script_line list option \<Rightarrow> string option \<Rightarrow> string option \<Rightarrow> page \<Rightarrow> page" where
  "showResult script audioUrl episodeTitle st =
     (let st1 = clear_progress_timeouts st;
          st2 = setProgress 100 ''Ready!'' st1;
          st3 = st2\<lparr>progressStatus_text := ''Ready!''\<rparr>;
          st4 = st3\<lparr>currentEpisodeScript := Some (case script of None \<Rightarrow> [] | Some lines \<Rightarrow> lines),
                    currentMainAudioUrl := or_null audioUrl\<rparr>
      in snd (setTimeout (ResultTransition script audioUrl episodeTitle) PROGRESS_TRANSITION_MS st4))"

subsection \<open>The first-generation script\<close>

text \<open>
  \<open>static/script.js\<close> is the earlier page script: upload, staged progress, result. Its
  \<open>validateFile\<close>, \<open>formatFileName\<close>, \<open>getHistory\<close>, \<open>saveHistory\<close>, \<open>hideError\<close>
  and \<open>setProgress\<close> are the same text as the later script's and are modelled by the
  definitions above. What differs carries the suffix \<open>_v1\<close>; these functions use only the
  elements that script knows.
\<close>

definition STAGED_MESSAGES_v1 :: "(nat \<times> string) list" where
  "STAGED_MESSAGES_v1 =
     [(30, ''Extracting text from eBook...''),
      (70, ''AI Hosts analyzing narrative and drafting script...''),
      (95, ''Synthesizing neural voices...''),
      (100, ''Ready!'')]"

definition showError_v1 :: "string \<Rightarrow> page \<Rightarrow> page" where
  "showError_v1 msg st =
     clear_progress_timeouts
       (st\<lparr>errorMessage_text := msg,
           errorPanel_hidden := False,
           resultPanel_hidden := True,
           progressSection_hidden := True,
           submitBtn_hidden := False,
           submitBtn_disabled := False\<rparr>)"

definition staged_next_v1 :: "nat \<Rightarrow> page \<Rightarrow> page" where
  "staged_next_v1 stage st =
     (if stage \<ge> length STAGED_MESSAGES_v1 then st
      else
        (let s = STAGED_MESSAGES_v1 ! stage;
             st1 = setProgress (fst s) (snd s) st;
             (t, st2) = setTimeout (StagedNextV1 (Suc stage)) STAGED_DURATION_MS st1
         in st2\<lparr>progressTimeouts := progressTimeouts st2 @ [t]\<rparr>))"

definition runStagedProgress_v1 :: "page \<Rightarrow> page" where
  "runStagedProgress_v1 st = staged_next_v1 0 st"

definition result_transition_v1 :: "script_line list \<Rightarrow> string option \<Rightarrow> page \<Rightarrow> page" where
  "result_transition_v1 script audioUrl st =
     (let st1 = st\<lparr>progressSection_hidden := True,
                    submitBtn_hidden := False,
                    submitBtn_disabled := False,
                    errorPanel_hidden := True,
                    resultPanel_hidden := False,
                    scriptContent := []\<rparr>
      in case audioPlayer st1 of
           None \<Rightarrow> st1
         | Some a \<Rightarrow>
             (let st2 =
                (if truthy audioUrl
                 then st1\<lparr>audioPlayer := Some (a\<lparr>src := audioUrl, audio_hidden := False\<rparr>)\<rparr>
                 else st1\<lparr>audioPlayer := Some (a\<lparr>src := None, audio_hidden := True\<rparr>)\<rparr>)
              in schedule_rows script 0 st2))"

definition showResult_v1 :: "script_line list \<Rightarrow> string option \<Rightarrow> page \<Rightarrow> page" where
  "showResult_v1 script audioUrl st =
     (let st1 = clear_progress_timeouts st;
          st2 = setProgress 100 ''Ready!'' st1;
          st3 = st2\<lparr>progressStatus_text := ''Ready!''\<rparr>
      in snd (setTimeout (ResultTransitionV1 script audioUrl) PROGRESS_TRANSITION_MS st3))"

text \<open>The history items of this script carry no \<open>data-history-id\<close>.\<close>

definition renderHistory_v1 :: "page \<Rightarrow> page" where
  "renderHistory_v1 st =
     (let list = getHistory (history_store st)
      in st\<lparr>historyList :=
               map (\<lambda>item. \<lparr>li_historyId = [],
                              li_name = escapeHtml (or_else (Some (h_name item)) ''Untitled''),
                              li_date = escapeHtml (or_else (Some (h_date item)) [])\<rparr>) list,
            historyEmpty_display := (if length list \<noteq> 0 then ''none'' else ''block'')\<rparr>)"

definition addToHistory_v1 :: "string \<Rightarrow> nat \<Rightarrow> string \<Rightarrow> bool \<Rightarrow> page \<Rightarrow> page" where
  "addToHistory_v1 filename now date accepted st =
     (let list = getHistory (history_store st);
          name = or_else (Some (formatFileName filename)) ''Untitled'';
          list1 = \<lparr>h_id = now, h_name = name, h_fullName = filename, h_date = date\<rparr> # list;
          list2 = (if length list1 > 50 then take 50 list1 else list1)
      in renderHistory_v1 (st\<lparr>history_store := saveHistory accepted list2 (history_store st)\<rparr>))"

definition form_submit_v1 :: "page \<Rightarrow> page" where
  "form_submit_v1 st =
     (case validateFile (fileInput_files st) of
        Some err \<Rightarrow> showError_v1 err st
      | None \<Rightarrow>
          (let st1 = hideError st;
               st2 = st1\<lparr>submitBtn_hidden := True, progressSection_hidden := False\<rparr>;
               st3 = setProgress 0 ''Extracting text from eBook...'' st2;
               st4 = runStagedProgress_v1 st3
           in st4\<lparr>sent := sent st4 @
                  [GeneratePodcastRequest (fileInput_files st4) (setting_language st4)
                     (setting_vibe st4)]\<rparr>))"

definition podcast_response_v1 :: "bool \<Rightarrow> resp_data \<Rightarrow> nat \<Rightarrow> string \<Rightarrow> bool \<Rightarrow> page \<Rightarrow> page" where
  "podcast_response_v1 ok data now date accepted st =
     (if \<not> ok then showError_v1 (or_else (r_error data) ''Something went wrong.'') st
      else
        (let script = (case r_script data of None \<Rightarrow> [] | Some lines \<Rightarrow> lines);
             audioUrl = r_audio_url data;
             st1 = (case fileInput_files st of
                      [] \<Rightarrow> st
                    | file # _ \<Rightarrow>
                        if file_name file \<noteq> []
                        then addToHistory_v1 (file_name file) now date accepted st
                        else st)
         in showResult_v1 script audioUrl st1))"

definition podcast_network_error_v1 :: "page \<Rightarrow> page" where
  "podcast_network_error_v1 st = showError_v1 ''Network error. Please try again.'' st"

subsection \<open>Timers firing\<close>

text \<open>A pending timer fires once: it leaves the pending set and its callback runs.\<close>

definition run_callback :: "timer_callback \<Rightarrow> page \<Rightarrow> page" where
  "run_callback cb st =
     (case cb of
        StagedNext stage \<Rightarrow> staged_next stage st
      | ResultTransition script audioUrl episodeTitle \<Rightarrow>
          result_transition script audioUrl episodeTitle st
      | AppendRow line \<Rightarrow> append_row line st
      | StagedNextV1 stage \<Rightarrow> staged_next_v1 stage st
      | ResultTransitionV1 script audioUrl \<Rightarrow> result_transition_v1 script audioUrl st)"

definition timer_fires :: "nat \<Rightarrow> page \<Rightarrow> page" where
  "timer_fires t st =
     (case filter (\<lambda>tm. timer_id tm = t) (timers st) of
        [] \<Rightarrow> st
      | tm # _ \<Rightarrow> run_callback (timer_run tm) (clearTimeout t st))"

subsection \<open>Parse flow\<close>

definition form_submit :: "page \<Rightarrow> page" where
  "form_submit st =
     (case validateFile (fileInput_files st) of
        Some err \<Rightarrow> showError err st
      | None \<Rightarrow>
          (let st1 = hideError st;
               st2 = st1\<lparr>submitBtn_hidden := True, progressSection_hidden := False\<rparr>;
               st3 = setProgress 20 ''Extracting text from eBook...'' st2
           in st3\<lparr>sent := sent st3 @
                  [ParseRequest (fileInput_files st3) (setting_language st3) (setting_vibe st3)]\<rparr>))"

definition renderEpisodeList :: "episode list \<Rightarrow> page \<Rightarrow> page" where
  "renderEpisodeList episodes st =
     (case episodeList st of
        None \<Rightarrow> st
      | Some _ \<Rightarrow>
          st\<lparr>episodeList := Some (map (\<lambda>ep.
               \<lparr>item_episodeId = string_of_nat (ep_id ep),
                item_episodeTitle = or_else (ep_title ep) (''Episode '' @ string_of_nat (ep_id ep)),
                item_selected = False\<rparr>) episodes)\<rparr>)"

text \<open>
  The second \<open>then\<close> of the parse request: \<open>ok\<close> is \<open>res.ok\<close>, \<open>data\<close> the parsed body;
  \<open>now\<close>, \<open>date\<close> and \<open>accepted\<close> are what \<open>addToHistory\<close> gets from the clock and the
  local store.
\<close>

definition parse_response :: "bool \<Rightarrow> resp_data \<Rightarrow> nat \<Rightarrow> string \<Rightarrow> bool \<Rightarrow> page \<Rightarrow> page" where
  "parse_response ok data now date accepted st =
     (let st1 = st\<lparr>progressSection_hidden := True,
                    submitBtn_hidden := False,
                    submitBtn_disabled := False\<rparr>
      in if \<not> ok then showError (or_else (r_error data) ''Something went wrong.'') st1
         else
           (let st2 = st1\<lparr>currentUploadId := or_null (r_upload_id data),
                          currentEpisodes := (case r_episodes data of None \<Rightarrow> [] | Some eps \<Rightarrow> eps),
                          selectedEpisodeId := None,
                          selectedEpisodeTitle := None,
                          episodeSelectedBlock := set_hidden (episodeSelectedBlock st1)\<rparr>;
                st3 = renderEpisodeList (currentEpisodes st2) st2;
                st4 = st3\<lparr>episodeExplorer := remove_hidden (episodeExplorer st3)\<rparr>
            in case fileInput_files st4 of
                 [] \<Rightarrow> st4
               | file # _ \<Rightarrow>
                   if file_name file \<noteq> [] then addToHistory (file_name file) now date accepted st4
                   else st4))"

text \<open>The \<open>catch\<close> of the parse request: the request did not complete.\<close>

definition parse_network_error :: "page \<Rightarrow> page" where
  "parse_network_error st =
     (showError ''Network error. Please try again.'' st)
       \<lparr>progressSection_hidden := True,
        submitBtn_hidden := False,
        submitBtn_disabled := False\<rparr>"

subsection \<open>Episode selection and generation\<close>

definition onEpisodeSelected :: "string \<Rightarrow> string \<Rightarrow> page \<Rightarrow> page" where
  "onEpisodeSelected episodeId episodeTitle st =
     st\<lparr>selectedEpisodeId := Some episodeId,
        selectedEpisodeTitle := Some episodeTitle,
        episodeSelectedBlock := remove_hidden (episodeSelectedBlock st),
        episodePromptInput :=
          (case (episodeSelectedBlock st, episodePromptInput st) of
             (Some _, Some _) \<Rightarrow> Some []
           | _ \<Rightarrow> episodePromptInput st),
        episodeList :=
          (case episodeList st of
             None \<Rightarrow> None
           | Some items \<Rightarrow>
               Some (map (\<lambda>el. el\<lparr>item_selected := (item_episodeId el = episodeId)\<rparr>) items))\<rparr>"

text \<open>A click (or Enter or space) on the \<open>k\<close>-th item of the episode list.\<close>

definition episode_click :: "nat \<Rightarrow> page \<Rightarrow> page" where
  "episode_click k st =
     (case episodeList st of
        None \<Rightarrow> st
      | Some items \<Rightarrow>
          if k < length items
          then onEpisodeSelected (item_episodeId (items ! k)) (item_episodeTitle (items ! k)) st
          else st)"

text \<open>
  \<open>parseInt(s, 10)\<close>: leading white space, an optional sign, then the longest run of
  decimal digits; \<open>None\<close> is \<open>NaN\<close>. The value is the exact integer, which is what
  JavaScript returns up to \<open>2^53\<close>; beyond that the script's number is the nearest
  double. Only the payload of the generate request depends on it.
\<close>

definition is_digit :: "char \<Rightarrow> bool" where
  "is_digit c = (let n = (of_char c :: nat) in 48 \<le> n \<and> n \<le> 57)"

definition digits_value :: "string \<Rightarrow> nat" where
  "digits_value ds = foldl (\<lambda>acc c. 10 * acc + ((of_char c :: nat) - 48)) 0 ds"

definition parseInt10 :: "string \<Rightarrow> int option" where
  "parseInt10 s =
     (let t = dropWhile is_whitespace s;
          negative = (case t of [] \<Rightarrow> False | c # _ \<Rightarrow> c = CHR ''-'');
          signed = (case t of [] \<Rightarrow> False | c # _ \<Rightarrow> c = CHR ''-'' \<or> c = CHR ''+'');
          ds = takeWhile is_digit (if signed then tl t else t)
      in if ds = [] then None
         else Some (if negative then - int (digits_value ds) else int (digits_value ds)))"

definition generate_click :: "page \<Rightarrow> page" where
  "generate_click st =
     (case generateEpisodeBtn st of
        None \<Rightarrow> st
      | Some _ \<Rightarrow>
          if \<not> truthy (currentUploadId st) \<or> selectedEpisodeId st = None
          then showError ''Please select an episode first.'' st
          else
            (let st1 = hideError st;
                 st2 = st1\<lparr>generateEpisodeBtn := Some True, progressSection_hidden := False\<rparr>;
                 st3 = setProgress 30 ''Generating episode...'' st2;
                 user_prompt = (case episodePromptInput st3 of
                                  None \<Rightarrow> []
                                | Some v \<Rightarrow> if v = [] then [] else trim v)
             in st3\<lparr>sent := sent st3 @
                    [GenerateEpisodeRequest (currentUploadId st3)
                       (Option.bind (selectedEpisodeId st3) parseInt10) user_prompt]\<rparr>))"

definition generate_response :: "bool \<Rightarrow> resp_data \<Rightarrow> page \<Rightarrow> page" where
  "generate_response ok data st =
     (if \<not> ok
      then (let st1 = showError (or_else (r_error data) ''Something went wrong.'') st
            in st1\<lparr>generateEpisodeBtn := enable (generateEpisodeBtn st1),
                   progressSection_hidden := True\<rparr>)
      else showResult (Some (case r_script data of None \<Rightarrow> [] | Some lines \<Rightarrow> lines))
             (r_audio_url data) (selectedEpisodeTitle st) st)"

definition generate_network_error :: "page \<Rightarrow> page" where
  "generate_network_error st =
     (let st1 = showError ''Network error. Please try again.'' st
      in st1\<lparr>generateEpisodeBtn := enable (generateEpisodeBtn st1),
             progressSection_hidden := True\<rparr>)"

subsection \<open>Interrupt and resume\<close>

text \<open>
  \<open>audioPlayer.play()\<close>: the element leaves the paused state and the call is recorded.
  Whether playback really starts is the environment's answer, which arrives later as the
  promise's rejection (\<open>answer_play_rejected\<close> for the substitute clip; the script
  ignores a rejection for the main track). Assigning \<open>src\<close> and \<open>currentTime\<close> is
  modelled as the assignment the script writes.
\<close>

definition audio_play :: "page \<Rightarrow> page" where
  "audio_play st =
     (case audioPlayer st of
        None \<Rightarrow> st
      | Some a \<Rightarrow>
          st\<lparr>audioPlayer := Some (a\<lparr>paused := False\<rparr>),
             playLog := playLog st @
               [\<lparr>pc_src = src a, pc_time = currentTime a,
                 pc_reply_flag = isPlayingInterruptReply st\<rparr>]\<rparr>)"

definition resumeMainAudio :: "page \<Rightarrow> page" where
  "resumeMainAudio st =
     (let st1 = st\<lparr>isPlayingInterruptReply := False,
                    interruptAskForm := set_hidden (interruptAskForm st),
                    interruptBtn := remove_hidden (interruptBtn st),
                    interruptQuestionInput :=
                      (case interruptQuestionInput st of None \<Rightarrow> None | Some _ \<Rightarrow> Some [])\<rparr>
      in if truthy (currentMainAudioUrl st1)
         then (case audioPlayer st1 of
                 None \<Rightarrow> st1
               | Some a \<Rightarrow>
                   audio_play
                     (st1\<lparr>audioPlayer :=
                            Some (a\<lparr>src := currentMainAudioUrl st1,
                                    currentTime := savedResumeTime st1\<rparr>)\<rparr>))
         else st1)"

text \<open>The \<open>ended\<close> listener of the player; it is registered only if the player exists.\<close>

definition audio_ended :: "page \<Rightarrow> page" where
  "audio_ended st =
     (case audioPlayer st of
        None \<Rightarrow> st
      | Some _ \<Rightarrow> if isPlayingInterruptReply st then resumeMainAudio st else st)"

text \<open>The click listener of the interrupt trigger. Moving the focus is not modelled.\<close>

definition interrupt_click :: "page \<Rightarrow> page" where
  "interrupt_click st =
     (case interruptBtn st of
        None \<Rightarrow> st
      | Some _ \<Rightarrow>
          (case audioPlayer st of
             None \<Rightarrow> st
           | Some a \<Rightarrow>
               if currentEpisodeScript st = None \<or> \<not> truthy (currentMainAudioUrl st) then st
               else st\<lparr>audioPlayer := Some (a\<lparr>paused := True\<rparr>),
                       savedResumeTime := currentTime a,
                       interruptAskForm := remove_hidden (interruptAskForm st),
                       interruptBtn := Some True\<rparr>))"

text \<open>
  The click listener of the ask button; it is registered only if the button and the
  question input both exist.
\<close>

definition ask_submit_click :: "page \<Rightarrow> page" where
  "ask_submit_click st =
     (case (interruptAskSubmit st, interruptQuestionInput st) of
        (Some _, Some v) \<Rightarrow>
          (let question = trim v
           in if question = [] then st
              else if \<not> has_lines (currentEpisodeScript st)
              then showError ''No episode script available.'' st
              else st\<lparr>interruptAskSubmit := Some True,
                      sent := sent st @ [AskHostsRequest question (currentEpisodeScript st)]\<rparr>)
      | _ \<Rightarrow> st)"

text \<open>The second \<open>then\<close> of the ask request.\<close>

definition ask_response :: "bool \<Rightarrow> resp_data \<Rightarrow> page \<Rightarrow> page" where
  "ask_response ok data st =
     (let st1 = st\<lparr>interruptAskSubmit := enable (interruptAskSubmit st)\<rparr>
      in if \<not> ok
         then (let st2 = showError (or_else (r_error data) ''Something went wrong.'') st1
               in st2\<lparr>interruptBtn := remove_hidden (interruptBtn st2),
                      interruptAskForm := set_hidden (interruptAskForm st2)\<rparr>)
         else
           (case (or_null (r_audio_url data), audioPlayer st1) of
              (Some audioUrl, Some a) \<Rightarrow>
                audio_play
                  (st1\<lparr>isPlayingInterruptReply := True,
                        audioPlayer := Some (a\<lparr>src := Some audioUrl\<rparr>)\<rparr>)
            | _ \<Rightarrow>
                st1\<lparr>interruptBtn := remove_hidden (interruptBtn st1),
                     interruptAskForm := set_hidden (interruptAskForm st1)\<rparr>))"

text \<open>The \<open>catch\<close> on \<open>play()\<close> of the substitute clip: playback could not start.\<close>

definition answer_play_rejected :: "page \<Rightarrow> page" where
  "answer_play_rejected st = resumeMainAudio (st\<lparr>isPlayingInterruptReply := False\<rparr>)"

text \<open>The \<open>catch\<close> of the ask request: the request did not complete.\<close>

definition ask_network_error :: "page \<Rightarrow> page" where
  "ask_network_error st =
     (let st1 = st\<lparr>interruptAskSubmit := enable (interruptAskSubmit st)\<rparr>;
          st2 = showError ''Network error. Please try again.'' st1
      in st2\<lparr>interruptBtn := remove_hidden (interruptBtn st2),
             interruptAskForm := set_hidden (interruptAskForm st2)\<rparr>)"

subsection \<open>What the user and the media element do between events\<close>

text \<open>The user edits the question; playback moves the element's clock.\<close>

definition user_types :: "string \<Rightarrow> page \<Rightarrow> page" where
  "user_types q st =
     st\<lparr>interruptQuestionInput :=
          (case interruptQuestionInput st of None \<Rightarrow> None | Some _ \<Rightarrow> Some q)\<rparr>"

definition playback_reaches :: "real \<Rightarrow> page \<Rightarrow> page" where
  "playback_reaches t st =
     st\<lparr>audioPlayer :=
          (case audioPlayer st of None \<Rightarrow> None | Some a \<Rightarrow> Some (a\<lparr>currentTime := t\<rparr>))\<rparr>"

subsection \<open>Example pages\<close>

text \<open>
  The page as the script finds it when it loads, with every element present, and the same
  page while an episode with audio is being listened to.
\<close>

definition fresh_page :: page where
  "fresh_page =
     \<lparr>currentUploadId = None,
      currentEpisodes = [],
      selectedEpisodeId = None,
      selectedEpisodeTitle = None,
      currentEpisodeScript = None,
      currentMainAudioUrl = None,
      savedResumeTime = 0,
      isPlayingInterruptReply = False,
      progressTimeouts = [],
      errorMessage_text = [],
      errorPanel_hidden = True,
      resultPanel_hidden = True,
      progressSection_hidden = True,
      submitBtn_hidden = False,
      submitBtn_disabled = False,
      progressBar_width = 0,
      progressBar_valuenow = 0,
      progressStatus_text = [],
      scriptContent = [],
      historyList = [],
      historyEmpty_display = ''block'',
      setting_language = ''English'',
      setting_vibe = ''casual'',
      generateEpisodeBtn = Some False,
      resultEpisodeTitle = Some ([], True),
      interruptBlock = Some True,
      interruptBtn = Some False,
      interruptAskForm = Some True,
      interruptQuestionInput = Some [],
      interruptAskSubmit = Some False,
      audioPlayer = Some \<lparr>src = None, currentTime = 0, paused = True, audio_hidden = True\<rparr>,
      episodeExplorer = Some True,
      episodeList = Some [],
      episodeSelectedBlock = Some True,
      episodePromptInput = Some [],
      fileInput_files = [],
      history_store = Absent,
      timers = [],
      nextTimerId = 1,
      sent = [],
      playLog = []\<rparr>"

definition example_script :: "script_line list" where
  "example_script =
     [\<lparr>speaker = ''Host A'', line_text = ''Welcome back.''\<rparr>,
      \<lparr>speaker = ''Host B'', line_text = ''Today: chapter one.''\<rparr>]"

definition listening_page :: page where
  "listening_page =
     fresh_page
       \<lparr>currentUploadId := Some ''u1'',
        currentEpisodes := [\<lparr>ep_id = 1, ep_title = Some ''Chapter one''\<rparr>],
        selectedEpisodeId := Some ''1'',
        selectedEpisodeTitle := Some ''Chapter one'',
        currentEpisodeScript := Some example_script,
        currentMainAudioUrl := Some ''/audio/ep1.mp3'',
        resultPanel_hidden := False,
        interruptBlock := Some False,
        audioPlayer := Some \<lparr>src = Some ''/audio/ep1.mp3'', currentTime = 25 / 2,
                               paused = False, audio_hidden = False\<rparr>,
        episodeExplorer := Some False,
        episodeList := Some [\<lparr>item_episodeId = ''1'', item_episodeTitle = ''Chapter one'',
                               item_selected = True\<rparr>],
        episodeSelectedBlock := Some False,
        fileInput_files := [\<lparr>file_name = ''Book.PDF'', file_size = 1048576\<rparr>]\<rparr>"


text \<open>
  The page after the interrupt trigger was clicked at 12.5 s, the question typed and
  submitted: the ask request is in flight.
\<close>

definition awaiting_answer_page :: page where
  "awaiting_answer_page =
     ask_submit_click (user_types ''Why did the fox ask to be tamed?'' (interrupt_click listening_page))"

definition empty_response :: resp_data where
  "empty_response =
     \<lparr>r_error = None, r_upload_id = None, r_episodes = None, r_script = None, r_audio_url = None\<rparr>"

text \<open>A store that already holds 50 entries, newest first.\<close>

definition full_history :: "history_entry list" where
  "full_history =
     map (\<lambda>i. \<lparr>h_id = i, h_name = ''book.epub'', h_fullName = ''book.epub'',
                h_date = ''Jan 1, 2026''\<rparr>) (rev [0..<50])"

text \<open>
  A second episode is generated while the first is shown (the file input has been
  cleared meanwhile); then the upload form is submitted with no file chosen, before the
  transition timer of the result has fired.
\<close>

definition second_episode :: resp_data where
  "second_episode =
     empty_response\<lparr>r_script := Some example_script, r_audio_url := Some ''/audio/ep2.mp3''\<rparr>"

definition result_arrived_page :: page where
  "result_arrived_page =
     generate_response True second_episode
       (generate_click (listening_page\<lparr>fileInput_files := []\<rparr>))"

definition error_after_result_page :: page where
  "error_after_result_page = form_submit result_arrived_page"

section \<open>Properties\<close>

subsection \<open>Strings and file names\<close>

lemmas string_eval = toLowerCase_def lower_char_def char_of_def bit_0

lemma string_of_nat_50: "string_of_nat 50 = ''50''"
  by (simp add: string_of_nat.simps[of 50] string_of_nat.simps[of 5] char_of_def bit_0)

lemma split_on_nonempty: "split_on d s \<noteq> []"
  by (induction s) (auto split: list.splits)

lemma split_on_no_sep: "d \<notin> set s \<Longrightarrow> split_on d s = [s]"
  by (induction s) auto

lemma split_on_append: "split_on d (xs @ d # e) = split_on d xs @ split_on d e"
proof (induction xs)
  case Nil
  show ?case by simp
next
  case (Cons c xs)
  obtain w ws where "split_on d xs = w # ws"
    using split_on_nonempty[of d xs] by (cases "split_on d xs") auto
  with Cons show ?case by simp
qed

lemma split_on_map:
  assumes "\<And>c. f c = d \<longleftrightarrow> c = d"
  shows "split_on d (map f s) = map (map f) (split_on d s)"
  using assms by (induction s) (auto split: list.splits)

lemma of_char_lower_char:
  "(of_char (lower_char c) :: nat) =
     (if 65 \<le> (of_char c :: nat) \<and> (of_char c :: nat) \<le> 90 then of_char c + 32
      else if 192 \<le> (of_char c :: nat) \<and> (of_char c :: nat) \<le> 222 \<and> (of_char c :: nat) \<noteq> 215
      then of_char c + 32 else of_char c)"
  unfolding lower_char_def Let_def
  by (simp only: of_char_of if_distrib[of "of_char"] mod_less) auto

lemma lower_char_dot: "lower_char c = CHR ''.'' \<longleftrightarrow> c = CHR ''.''"
proof -
  have "lower_char c = CHR ''.'' \<longleftrightarrow> (of_char (lower_char c) :: nat) = of_char (CHR ''.'')"
    by (simp only: of_char_eq_iff)
  also have "\<dots> \<longleftrightarrow> (of_char c :: nat) = of_char (CHR ''.'')"
    by (simp add: of_char_lower_char)
  also have "\<dots> \<longleftrightarrow> c = CHR ''.''"
    by (simp only: of_char_eq_iff)
  finally show ?thesis .
qed

lemma ext_of_lowercased: "ext_of name = last (split_on CHR ''.'' (toLowerCase name))"
  unfolding ext_of_def toLowerCase_def
  by (simp add: split_on_map[of lower_char, OF lower_char_dot] last_map split_on_nonempty)

lemma ext_of_no_dot: "CHR ''.'' \<notin> set name \<Longrightarrow> ext_of name = toLowerCase name"
  by (simp add: ext_of_def split_on_no_sep)

lemma ext_of_suffix: "CHR ''.'' \<notin> set e \<Longrightarrow> ext_of (stem @ CHR ''.'' # e) = toLowerCase e"
  by (simp add: ext_of_def split_on_append split_on_no_sep)

lemma toLowerCase_dot: "CHR ''.'' \<in> set (toLowerCase name) \<longleftrightarrow> CHR ''.'' \<in> set name"
  unfolding toLowerCase_def
  by (induction name) (simp_all add: lower_char_dot eq_commute[of "CHR ''.''"])

lemma validateFile_cases:
  "validateFile (file # rest) =
     (if ext_of (file_name file) \<noteq> ''pdf'' \<and> ext_of (file_name file) \<noteq> ''epub''
      then Some ''Only PDF and EPUB files are allowed.''
      else if file_size file > 52428800 then Some ''File is too large (max 50 MB).''
      else None)"
  by (simp add: validateFile_def Let_def maxMb_def string_of_nat_50)

subsection \<open>Upload validation\<close>

text \<open>
  C6, as stated: every selected file of more than 50 MB is rejected as too large. The
  extension is checked first, so an oversized file with another extension is rejected as
  an unsupported type instead: the statement fails at \<open>notes.txt\<close> of 60\,000\,000 bytes.
\<close>

theorem C6_oversized_unsupported_counterexample:
  "\<not> (file_size \<lparr>file_name = ''notes.txt'', file_size = 60000000\<rparr> > 50 * 1024 * 1024
       \<longrightarrow> validateFile [\<lparr>file_name = ''notes.txt'', file_size = 60000000\<rparr>]
             = Some ''File is too large (max 50 MB).'')"
  by (simp add: validateFile_cases ext_of_def string_eval)

text \<open>
  C6, amended: every selected file with an accepted extension (\<open>pdf\<close> or \<open>epub\<close>, in any
  letter case) and of more than \<open>50 * 1024 * 1024\<close> bytes is rejected with the
  too-large message; a selected file with any other extension is rejected with the
  unsupported-type message, whatever its size.
\<close>

theorem C6_too_large_after_type_check:
  "((ext_of (file_name file) = ''pdf'' \<or> ext_of (file_name file) = ''epub'')
      \<and> file_size file > 50 * 1024 * 1024
    \<longrightarrow> validateFile (file # rest) = Some ''File is too large (max 50 MB).'')
   \<and> (ext_of (file_name file) \<noteq> ''pdf'' \<and> ext_of (file_name file) \<noteq> ''epub''
    \<longrightarrow> validateFile (file # rest) = Some ''Only PDF and EPUB files are allowed.'')"
  by (auto simp add: validateFile_cases)

theorem C6_too_large_after_type_check_witness:
  "ext_of (file_name \<lparr>file_name = ''Book.PDF'', file_size = 52428801\<rparr>) = ''pdf''
   \<and> file_size \<lparr>file_name = ''Book.PDF'', file_size = 52428801\<rparr> > 50 * 1024 * 1024
   \<and> validateFile [\<lparr>file_name = ''Book.PDF'', file_size = 52428801\<rparr>]
       = Some ''File is too large (max 50 MB).''
   \<and> ext_of (file_name \<lparr>file_name = ''notes.txt'', file_size = 60000000\<rparr>) \<noteq> ''pdf''
   \<and> ext_of (file_name \<lparr>file_name = ''notes.txt'', file_size = 60000000\<rparr>) \<noteq> ''epub''
   \<and> validateFile [\<lparr>file_name = ''notes.txt'', file_size = 60000000\<rparr>]
       = Some ''Only PDF and EPUB files are allowed.''"
  using C6_too_large_after_type_check
          [of "\<lparr>file_name = ''Book.PDF'', file_size = 52428801\<rparr>" "[]"]
        C6_too_large_after_type_check
          [of "\<lparr>file_name = ''notes.txt'', file_size = 60000000\<rparr>" "[]"]
  by (simp add: ext_of_def string_eval)

text \<open>
  C9: the extension that \<open>validateFile\<close> checks is the last dot-separated segment of the
  lower-cased file name. A name without a dot is its own extension, so a file named
  \<open>pdf\<close> or \<open>epub\<close> in any letter case passes the type check (the verdict then depends
  on the size alone); and for a name \<open>stem.EXT\<close> the extension is \<open>EXT\<close> lower-cased,
  so \<open>Book.PDF\<close> passes as \<open>book.pdf\<close> does.
\<close>

theorem C9_extension_is_last_segment_lowercased:
  "ext_of name = last (split_on CHR ''.'' (toLowerCase name))
   \<and> (CHR ''.'' \<notin> set name \<longrightarrow> ext_of name = toLowerCase name)
   \<and> (toLowerCase name = ''pdf'' \<or> toLowerCase name = ''epub''
        \<longrightarrow> validateFile (\<lparr>file_name = name, file_size = sz\<rparr> # rest)
              = (if sz > 50 * 1024 * 1024 then Some ''File is too large (max 50 MB).'' else None))
   \<and> (CHR ''.'' \<notin> set e \<longrightarrow> ext_of (stem @ CHR ''.'' # e) = toLowerCase e)
   \<and> (CHR ''.'' \<notin> set e \<and> (toLowerCase e = ''pdf'' \<or> toLowerCase e = ''epub'')
        \<longrightarrow> validateFile (\<lparr>file_name = stem @ CHR ''.'' # e, file_size = sz\<rparr> # rest)
              \<noteq> Some ''Only PDF and EPUB files are allowed.'')"
proof -
  have no_dot: "CHR ''.'' \<notin> set name"
    if "toLowerCase name = ''pdf'' \<or> toLowerCase name = ''epub''"
  proof -
    from that have "CHR ''.'' \<notin> set (toLowerCase name)" by auto
    then show ?thesis by (simp add: toLowerCase_dot)
  qed
  have whole: "validateFile (\<lparr>file_name = name, file_size = sz\<rparr> # rest)
      = (if sz > 50 * 1024 * 1024 then Some ''File is too large (max 50 MB).'' else None)"
    if "toLowerCase name = ''pdf'' \<or> toLowerCase name = ''epub''"
    using that no_dot[OF that] by (auto simp add: validateFile_cases ext_of_no_dot)
  have suffix: "validateFile (\<lparr>file_name = stem @ CHR ''.'' # e, file_size = sz\<rparr> # rest)
      \<noteq> Some ''Only PDF and EPUB files are allowed.''"
    if "CHR ''.'' \<notin> set e" "toLowerCase e = ''pdf'' \<or> toLowerCase e = ''epub''"
    using that by (auto simp add: validateFile_cases ext_of_suffix)
  show ?thesis
    using whole suffix ext_of_lowercased[of name] ext_of_no_dot[of name] ext_of_suffix[of e stem]
    by blast
qed

theorem C9_extension_is_last_segment_lowercased_witness:
  "CHR ''.'' \<notin> set ''EPub''
   \<and> toLowerCase ''EPub'' = ''epub''
   \<and> ext_of ''EPub'' = ''epub''
   \<and> validateFile [\<lparr>file_name = ''EPub'', file_size = 1048576\<rparr>] = None
   \<and> CHR ''.'' \<notin> set ''PDF''
   \<and> toLowerCase ''PDF'' = ''pdf''
   \<and> ext_of ''Book.PDF'' = ''pdf''
   \<and> validateFile [\<lparr>file_name = ''Book.PDF'', file_size = 1048576\<rparr>]
       \<noteq> Some ''Only PDF and EPUB files are allowed.''"
  using C9_extension_is_last_segment_lowercased
          [of "''EPub''" 1048576 "[]" "''PDF''" "''Book''"]
  by (simp add: string_eval)


subsection \<open>Timers and the error banner\<close>

lemma foldl_clearTimeout:
  "foldl (\<lambda>s t. clearTimeout t s) st ts =
     st\<lparr>timers := filter (\<lambda>tm. timer_id tm \<notin> set ts) (timers st)\<rparr>"
proof (induction ts arbitrary: st)
  case Nil
  show ?case by simp
next
  case (Cons t ts)
  have "foldl (\<lambda>s t. clearTimeout t s) (clearTimeout t st) ts =
      (clearTimeout t st)\<lparr>timers :=
         filter (\<lambda>tm. timer_id tm \<notin> set ts) (timers (clearTimeout t st))\<rparr>"
    by (rule Cons.IH)
  then show ?case by (simp add: clearTimeout_def conj_commute)
qed

lemma clear_progress_timeouts_eq:
  "clear_progress_timeouts st =
     st\<lparr>timers := filter (\<lambda>tm. timer_id tm \<notin> set (progressTimeouts st)) (timers st),
        progressTimeouts := []\<rparr>"
  by (simp add: clear_progress_timeouts_def foldl_clearTimeout)

lemma showError_eq:
  "showError msg st =
     st\<lparr>errorMessage_text := msg,
        errorPanel_hidden := False,
        resultPanel_hidden := True,
        progressSection_hidden := True,
        submitBtn_hidden := False,
        submitBtn_disabled := False,
        generateEpisodeBtn := enable (generateEpisodeBtn st),
        timers := filter (\<lambda>tm. timer_id tm \<notin> set (progressTimeouts st)) (timers st),
        progressTimeouts := []\<rparr>"
  by (simp add: showError_def clear_progress_timeouts_eq)

lemma enable_idem: "enable (enable el) = enable el"
  by (simp add: enable_def split: option.splits)

lemma hidden_present:
  "el \<noteq> None \<Longrightarrow> set_hidden el = Some True"
  "el \<noteq> None \<Longrightarrow> remove_hidden el = Some False"
  by (auto simp add: set_hidden_def remove_hidden_def)


subsection \<open>History\<close>

lemma stored_after_add:
  "getHistory (history_store (addToHistory filename now date accepted st)) =
     (if accepted
      then (let list1 = \<lparr>h_id = now, h_name = or_else (Some (formatFileName filename)) ''Untitled'',
                          h_fullName = filename, h_date = date\<rparr> # getHistory (history_store st)
            in if length list1 > 50 then take 50 list1 else list1)
      else getHistory (history_store st))"
  by (simp add: addToHistory_def renderHistory_def saveHistory_def getHistory_def Let_def)

text \<open>
  C8: when the store holds 50 entries and takes the write, \<open>addToHistory\<close> stores the new
  entry followed by the old list without its last (oldest) entry, 50 entries again. After
  any add the stored list has at most 50 entries: always when the write is taken, and
  when it is refused (the store then keeps what it had) provided it had at most 50.
\<close>

theorem C8_history_capped_at_50:
  "(accepted \<and> length (getHistory (history_store st)) = 50 \<longrightarrow>
      getHistory (history_store (addToHistory filename now date accepted st)) =
        \<lparr>h_id = now, h_name = or_else (Some (formatFileName filename)) ''Untitled'',
         h_fullName = filename, h_date = date\<rparr> # butlast (getHistory (history_store st)))
   \<and> (length (getHistory (history_store st)) = 50 \<longrightarrow>
      length (getHistory (history_store (addToHistory filename now date accepted st))) = 50)
   \<and> (accepted \<or> length (getHistory (history_store st)) \<le> 50 \<longrightarrow>
      length (getHistory (history_store (addToHistory filename now date accepted st))) \<le> 50)"
  by (auto simp add: stored_after_add Let_def butlast_conv_take)

theorem C8_history_capped_at_50_witness:
  "length (getHistory (history_store (fresh_page\<lparr>history_store := Stored full_history\<rparr>))) = 50
   \<and> getHistory (history_store
        (addToHistory ''Book.PDF'' 1767225600000 ''Jan 2, 2026'' True
           (fresh_page\<lparr>history_store := Stored full_history\<rparr>))) =
       \<lparr>h_id = 1767225600000, h_name = ''Book.PDF'', h_fullName = ''Book.PDF'',
        h_date = ''Jan 2, 2026''\<rparr> # butlast full_history
   \<and> length (getHistory (history_store
        (addToHistory ''Book.PDF'' 1767225600000 ''Jan 2, 2026'' True
           (fresh_page\<lparr>history_store := Stored full_history\<rparr>)))) = 50
   \<and> last (butlast full_history) = \<lparr>h_id = 1, h_name = ''book.epub'', h_fullName = ''book.epub'',
        h_date = ''Jan 1, 2026''\<rparr>"
proof -
  have len: "length full_history = 50" by (simp add: full_history_def)
  have name: "or_else (Some (formatFileName ''Book.PDF'')) ''Untitled'' = ''Book.PDF''"
    by (simp add: formatFileName_def MAX_FILENAME_LENGTH_def or_else_def)
  have "butlast full_history = map (\<lambda>i. \<lparr>h_id = i, h_name = ''book.epub'', h_fullName = ''book.epub'',
                h_date = ''Jan 1, 2026''\<rparr>) (rev [1..<50])"
    unfolding full_history_def map_butlast[symmetric] rev_map[symmetric]
    by (simp add: upt_conv_Cons[of 0 50])
  then have lst: "last (butlast full_history) = \<lparr>h_id = 1, h_name = ''book.epub'',
      h_fullName = ''book.epub'', h_date = ''Jan 1, 2026''\<rparr>"
    by (simp add: last_map last_rev upt_conv_Cons[of 1 50])
  show ?thesis
    using C8_history_capped_at_50
            [of True "fresh_page\<lparr>history_store := Stored full_history\<rparr>"
                "''Book.PDF''" 1767225600000 "''Jan 2, 2026''"]
    by (simp add: getHistory_def len name lst)
qed


subsection \<open>Interrupt controller: blank question and failed request\<close>

lemma listening_interrupt:
  "interrupt_click listening_page =
     listening_page
       \<lparr>audioPlayer := Some \<lparr>src = Some ''/audio/ep1.mp3'', currentTime = 25 / 2,
                              paused = True, audio_hidden = False\<rparr>,
        savedResumeTime := 25 / 2,
        interruptAskForm := Some False,
        interruptBtn := Some True\<rparr>"
  by (simp add: interrupt_click_def listening_page_def fresh_page_def truthy_def
      remove_hidden_def)

lemma trim_question: "trim ''Why did the fox ask to be tamed?'' = ''Why did the fox ask to be tamed?''"
  by (simp add: trim_def is_whitespace_def)

lemma awaiting_answer_page_eq:
  "awaiting_answer_page =
     listening_page
       \<lparr>audioPlayer := Some \<lparr>src = Some ''/audio/ep1.mp3'', currentTime = 25 / 2,
                              paused = True, audio_hidden = False\<rparr>,
        savedResumeTime := 25 / 2,
        interruptAskForm := Some False,
        interruptBtn := Some True,
        interruptQuestionInput := Some ''Why did the fox ask to be tamed?'',
        interruptAskSubmit := Some True,
        sent := [AskHostsRequest ''Why did the fox ask to be tamed?'' (Some example_script)]\<rparr>"
  unfolding awaiting_answer_page_def listening_interrupt
  by (simp add: ask_submit_click_def user_types_def trim_question has_lines_def Let_def
      listening_page_def fresh_page_def example_script_def)

text \<open>
  C4: a click on the ask button while the trimmed question is empty returns at once. The
  page is exactly as before: no request to \<open>/api/ask_hosts\<close> is added to the requests
  sent, and the resume offset, the reply flag, the player and the visibility of the
  interrupt trigger and of the ask form are unchanged.
\<close>

theorem C4_blank_question_is_a_no_op:
  assumes "interruptQuestionInput st = Some v" and "trim v = []"
  shows "ask_submit_click st = st
         \<and> sent (ask_submit_click st) = sent st
         \<and> savedResumeTime (ask_submit_click st) = savedResumeTime st
         \<and> isPlayingInterruptReply (ask_submit_click st) = isPlayingInterruptReply st
         \<and> audioPlayer (ask_submit_click st) = audioPlayer st
         \<and> interruptBtn (ask_submit_click st) = interruptBtn st
         \<and> interruptAskForm (ask_submit_click st) = interruptAskForm st"
proof -
  have "ask_submit_click st = st"
    using assms by (simp add: ask_submit_click_def split: option.splits)
  then show ?thesis by simp
qed

theorem C4_blank_question_is_a_no_op_witness:
  "interruptQuestionInput (user_types [CHR 0x20, CHR 0x09, CHR 0x20] (interrupt_click listening_page))
     = Some [CHR 0x20, CHR 0x09, CHR 0x20]
   \<and> trim [CHR 0x20, CHR 0x09, CHR 0x20] = []
   \<and> ask_submit_click (user_types [CHR 0x20, CHR 0x09, CHR 0x20] (interrupt_click listening_page))
       = user_types [CHR 0x20, CHR 0x09, CHR 0x20] (interrupt_click listening_page)
   \<and> sent (ask_submit_click
        (user_types [CHR 0x20, CHR 0x09, CHR 0x20] (interrupt_click listening_page))) = []"
proof -
  have q: "interruptQuestionInput
             (user_types [CHR 0x20, CHR 0x09, CHR 0x20] (interrupt_click listening_page))
           = Some [CHR 0x20, CHR 0x09, CHR 0x20]"
    unfolding listening_interrupt user_types_def
    by (simp add: listening_page_def fresh_page_def)
  have t: "trim [CHR 0x20, CHR 0x09, CHR 0x20] = []"
    by (simp add: trim_def is_whitespace_def)
  have s: "sent (user_types [CHR 0x20, CHR 0x09, CHR 0x20] (interrupt_click listening_page)) = []"
    unfolding listening_interrupt user_types_def
    by (simp add: listening_page_def fresh_page_def)
  show ?thesis
    using C4_blank_question_is_a_no_op [OF q t] q t s by simp
qed

text \<open>
  A question that is not blank does send the request (the model of the click is not
  the identity).
\<close>

lemma ask_submit_sends_request:
  "sent awaiting_answer_page =
     [AskHostsRequest ''Why did the fox ask to be tamed?'' (Some example_script)]"
  by (simp add: awaiting_answer_page_eq)

text \<open>
  C3: when the ask request fails, by a response that is not 2xx or by a network error,
  the handler leaves \<open>savedResumeTime\<close> as it was, makes the interrupt trigger visible
  and hides the ask form (for each of the two elements that the page has).
\<close>

theorem C3_failed_ask_returns_to_idle_ui:
  "savedResumeTime (ask_response False data st) = savedResumeTime st
   \<and> (interruptBtn st \<noteq> None \<longrightarrow> interruptBtn (ask_response False data st) = Some False)
   \<and> (interruptAskForm st \<noteq> None \<longrightarrow> interruptAskForm (ask_response False data st) = Some True)
   \<and> savedResumeTime (ask_network_error st) = savedResumeTime st
   \<and> (interruptBtn st \<noteq> None \<longrightarrow> interruptBtn (ask_network_error st) = Some False)
   \<and> (interruptAskForm st \<noteq> None \<longrightarrow> interruptAskForm (ask_network_error st) = Some True)"
  by (simp add: ask_response_def ask_network_error_def showError_eq Let_def hidden_present)

theorem C3_failed_ask_returns_to_idle_ui_witness:
  "savedResumeTime awaiting_answer_page = 25 / 2
   \<and> interruptBtn awaiting_answer_page = Some True
   \<and> interruptAskForm awaiting_answer_page = Some False
   \<and> savedResumeTime (ask_response False empty_response awaiting_answer_page) = 25 / 2
   \<and> interruptBtn (ask_response False empty_response awaiting_answer_page) = Some False
   \<and> interruptAskForm (ask_response False empty_response awaiting_answer_page) = Some True
   \<and> savedResumeTime (ask_network_error awaiting_answer_page) = 25 / 2
   \<and> interruptBtn (ask_network_error awaiting_answer_page) = Some False
   \<and> interruptAskForm (ask_network_error awaiting_answer_page) = Some True"
proof -
  have pre: "savedResumeTime awaiting_answer_page = 25 / 2"
      "interruptBtn awaiting_answer_page = Some True"
      "interruptAskForm awaiting_answer_page = Some False"
    by (simp_all add: awaiting_answer_page_eq)
  show ?thesis
    using C3_failed_ask_returns_to_idle_ui [of empty_response awaiting_answer_page] pre
    by simp
qed


subsection \<open>Parse flow\<close>

lemma listening_session:
  "currentUploadId listening_page = Some ''u1''"
  "currentEpisodes listening_page = [\<lparr>ep_id = 1, ep_title = Some ''Chapter one''\<rparr>]"
  "selectedEpisodeId listening_page = Some ''1''"
  "selectedEpisodeTitle listening_page = Some ''Chapter one''"
  by (simp_all add: listening_page_def fresh_page_def)

text \<open>
  C7: when the parse request fails, by a response that is not 2xx or by a network error,
  the error panel is shown with the message, and \<open>currentUploadId\<close>, \<open>currentEpisodes\<close>,
  \<open>selectedEpisodeId\<close> and \<open>selectedEpisodeTitle\<close> are what they were; submitting the
  form does not change them either, so they keep the values they had before the request.
\<close>

theorem C7_failed_parse_keeps_session:
  "currentUploadId (parse_response False data now date accepted st) = currentUploadId st
   \<and> currentEpisodes (parse_response False data now date accepted st) = currentEpisodes st
   \<and> selectedEpisodeId (parse_response False data now date accepted st) = selectedEpisodeId st
   \<and> selectedEpisodeTitle (parse_response False data now date accepted st) = selectedEpisodeTitle st
   \<and> errorPanel_hidden (parse_response False data now date accepted st) = False
   \<and> errorMessage_text (parse_response False data now date accepted st)
       = or_else (r_error data) ''Something went wrong.''
   \<and> currentUploadId (parse_network_error st) = currentUploadId st
   \<and> currentEpisodes (parse_network_error st) = currentEpisodes st
   \<and> selectedEpisodeId (parse_network_error st) = selectedEpisodeId st
   \<and> selectedEpisodeTitle (parse_network_error st) = selectedEpisodeTitle st
   \<and> errorPanel_hidden (parse_network_error st) = False
   \<and> errorMessage_text (parse_network_error st) = ''Network error. Please try again.''
   \<and> currentUploadId (form_submit st) = currentUploadId st
   \<and> currentEpisodes (form_submit st) = currentEpisodes st
   \<and> selectedEpisodeId (form_submit st) = selectedEpisodeId st
   \<and> selectedEpisodeTitle (form_submit st) = selectedEpisodeTitle st"
  by (simp add: parse_response_def parse_network_error_def form_submit_def showError_eq
      hideError_def setProgress_def Let_def split: option.splits)

theorem C7_failed_parse_keeps_session_witness:
  "sent (form_submit listening_page)
     = [ParseRequest [\<lparr>file_name = ''Book.PDF'', file_size = 1048576\<rparr>] ''English'' ''casual'']
   \<and> currentUploadId
        (parse_response False (empty_response\<lparr>r_error := Some ''Could not read the book.''\<rparr>)
           1767225600000 ''Jan 2, 2026'' True (form_submit listening_page)) = Some ''u1''
   \<and> selectedEpisodeId
        (parse_response False (empty_response\<lparr>r_error := Some ''Could not read the book.''\<rparr>)
           1767225600000 ''Jan 2, 2026'' True (form_submit listening_page)) = Some ''1''
   \<and> errorMessage_text
        (parse_response False (empty_response\<lparr>r_error := Some ''Could not read the book.''\<rparr>)
           1767225600000 ''Jan 2, 2026'' True (form_submit listening_page))
       = ''Could not read the book.''
   \<and> currentUploadId (parse_network_error (form_submit listening_page)) = Some ''u1''
   \<and> selectedEpisodeId (parse_network_error (form_submit listening_page)) = Some ''1''"
proof -
  have v: "validateFile (fileInput_files listening_page) = None"
    by (simp add: listening_page_def fresh_page_def validateFile_cases ext_of_def string_eval)
  have s: "sent (form_submit listening_page)
     = [ParseRequest [\<lparr>file_name = ''Book.PDF'', file_size = 1048576\<rparr>] ''English'' ''casual'']"
    by (simp add: form_submit_def v hideError_def setProgress_def Let_def)
       (simp add: listening_page_def fresh_page_def)
  show ?thesis
    using C7_failed_parse_keeps_session
            [of "empty_response\<lparr>r_error := Some ''Could not read the book.''\<rparr>"
                1767225600000 "''Jan 2, 2026''" True "form_submit listening_page"]
          C7_failed_parse_keeps_session
            [of "empty_response\<lparr>r_error := Some ''Could not read the book.''\<rparr>"
                1767225600000 "''Jan 2, 2026''" True "listening_page"]
          s
    by (simp add: listening_session empty_response_def or_else_def)
qed

text \<open>A successful parse response does replace the session.\<close>

lemma parse_success_replaces_session:
  "currentUploadId (parse_response True (empty_response\<lparr>r_upload_id := Some ''u2''\<rparr>)
       now date accepted listening_page) = Some ''u2''
   \<and> selectedEpisodeId (parse_response True (empty_response\<lparr>r_upload_id := Some ''u2''\<rparr>)
       now date accepted listening_page) = None"
  by (simp add: parse_response_def Let_def renderEpisodeList_def addToHistory_def
      renderHistory_def empty_response_def or_null_def listening_page_def fresh_page_def)


subsection \<open>Episode generation\<close>

lemma generate_click_frame:
  "currentUploadId (generate_click st) = currentUploadId st
   \<and> selectedEpisodeId (generate_click st) = selectedEpisodeId st
   \<and> selectedEpisodeTitle (generate_click st) = selectedEpisodeTitle st
   \<and> currentEpisodeScript (generate_click st) = currentEpisodeScript st
   \<and> currentMainAudioUrl (generate_click st) = currentMainAudioUrl st
   \<and> savedResumeTime (generate_click st) = savedResumeTime st"
  by (simp add: generate_click_def showError_eq hideError_def setProgress_def Let_def
      split: option.splits)

lemma generate_failure_eq:
  "generate_response False data st =
     st\<lparr>errorMessage_text := or_else (r_error data) ''Something went wrong.'',
        errorPanel_hidden := False,
        resultPanel_hidden := True,
        progressSection_hidden := True,
        submitBtn_hidden := False,
        submitBtn_disabled := False,
        generateEpisodeBtn := enable (generateEpisodeBtn st),
        timers := filter (\<lambda>tm. timer_id tm \<notin> set (progressTimeouts st)) (timers st),
        progressTimeouts := []\<rparr>"
  "generate_network_error st =
     st\<lparr>errorMessage_text := ''Network error. Please try again.'',
        errorPanel_hidden := False,
        resultPanel_hidden := True,
        progressSection_hidden := True,
        submitBtn_hidden := False,
        submitBtn_disabled := False,
        generateEpisodeBtn := enable (generateEpisodeBtn st),
        timers := filter (\<lambda>tm. timer_id tm \<notin> set (progressTimeouts st)) (timers st),
        progressTimeouts := []\<rparr>"
  by (simp_all add: generate_response_def generate_network_error_def showError_eq Let_def
      enable_idem)

text \<open>
  C10, as stated: after a failed generate request only the error banner, the progress
  section and the disabled state of the button have changed. \<open>showError\<close> also hides the
  result panel: on the page that shows a generated episode, a failed second request
  leaves the result panel hidden.
\<close>

theorem C10_failed_generate_hides_result_counterexample:
  "resultPanel_hidden listening_page = False
   \<and> resultPanel_hidden
        (generate_response False empty_response (generate_click listening_page)) = True
   \<and> resultPanel_hidden (generate_network_error (generate_click listening_page)) = True"
  by (simp add: generate_failure_eq) (simp add: listening_page_def fresh_page_def)

text \<open>
  C10, amended: a failed generate request (a response that is not 2xx, or a network
  error) leaves \<open>currentUploadId\<close>, \<open>selectedEpisodeId\<close>, \<open>selectedEpisodeTitle\<close>,
  \<open>currentEpisodeScript\<close>, \<open>currentMainAudioUrl\<close> and \<open>savedResumeTime\<close> at their
  values from before the request. What the failure handler changes is the error banner
  (text set, panel shown), the progress section (hidden), the generate button (enabled),
  and also the result panel (hidden), the submit button (shown and enabled) and the
  tracked progress timers (cancelled, \<open>progressTimeouts\<close> emptied); nothing else.
\<close>

theorem C10_failed_generate_frame:
  "generate_response False data st =
     st\<lparr>errorMessage_text := or_else (r_error data) ''Something went wrong.'',
        errorPanel_hidden := False,
        resultPanel_hidden := True,
        progressSection_hidden := True,
        submitBtn_hidden := False,
        submitBtn_disabled := False,
        generateEpisodeBtn := enable (generateEpisodeBtn st),
        timers := filter (\<lambda>tm. timer_id tm \<notin> set (progressTimeouts st)) (timers st),
        progressTimeouts := []\<rparr>
   \<and> generate_network_error st =
     st\<lparr>errorMessage_text := ''Network error. Please try again.'',
        errorPanel_hidden := False,
        resultPanel_hidden := True,
        progressSection_hidden := True,
        submitBtn_hidden := False,
        submitBtn_disabled := False,
        generateEpisodeBtn := enable (generateEpisodeBtn st),
        timers := filter (\<lambda>tm. timer_id tm \<notin> set (progressTimeouts st)) (timers st),
        progressTimeouts := []\<rparr>
   \<and> currentUploadId (generate_response False data (generate_click st)) = currentUploadId st
   \<and> selectedEpisodeId (generate_response False data (generate_click st)) = selectedEpisodeId st
   \<and> selectedEpisodeTitle (generate_response False data (generate_click st)) = selectedEpisodeTitle st
   \<and> currentEpisodeScript (generate_response False data (generate_click st)) = currentEpisodeScript st
   \<and> currentMainAudioUrl (generate_response False data (generate_click st)) = currentMainAudioUrl st
   \<and> savedResumeTime (generate_response False data (generate_click st)) = savedResumeTime st
   \<and> currentUploadId (generate_network_error (generate_click st)) = currentUploadId st
   \<and> selectedEpisodeId (generate_network_error (generate_click st)) = selectedEpisodeId st
   \<and> selectedEpisodeTitle (generate_network_error (generate_click st)) = selectedEpisodeTitle st
   \<and> currentEpisodeScript (generate_network_error (generate_click st)) = currentEpisodeScript st
   \<and> currentMainAudioUrl (generate_network_error (generate_click st)) = currentMainAudioUrl st
   \<and> savedResumeTime (generate_network_error (generate_click st)) = savedResumeTime st"
  by (simp add: generate_failure_eq generate_click_frame)

theorem C10_failed_generate_frame_witness:
  "sent (generate_click listening_page) = [GenerateEpisodeRequest (Some ''u1'') (Some 1) []]
   \<and> generateEpisodeBtn (generate_click listening_page) = Some True
   \<and> generateEpisodeBtn
        (generate_response False empty_response (generate_click listening_page)) = Some False
   \<and> errorMessage_text
        (generate_response False empty_response (generate_click listening_page))
       = ''Something went wrong.''
   \<and> currentUploadId
        (generate_response False empty_response (generate_click listening_page)) = Some ''u1''
   \<and> currentMainAudioUrl
        (generate_response False empty_response (generate_click listening_page))
       = Some ''/audio/ep1.mp3''
   \<and> currentMainAudioUrl (generate_network_error (generate_click listening_page))
       = Some ''/audio/ep1.mp3''"
proof -
  have p: "parseInt10 ''1'' = Some 1"
    by (simp add: parseInt10_def is_whitespace_def is_digit_def digits_value_def Let_def)
  have c: "generate_click listening_page =
      listening_page\<lparr>errorPanel_hidden := True, generateEpisodeBtn := Some True,
        progressSection_hidden := False, progressBar_width := 30, progressBar_valuenow := 30,
        progressStatus_text := ''Generating episode...'',
        sent := [GenerateEpisodeRequest (Some ''u1'') (Some 1) []]\<rparr>"
    by (simp add: generate_click_def hideError_def setProgress_def Let_def truthy_def p
        listening_page_def fresh_page_def)
  have m: "currentMainAudioUrl listening_page = Some ''/audio/ep1.mp3''"
    by (simp add: listening_page_def fresh_page_def)
  show ?thesis
    using C10_failed_generate_frame [of empty_response "generate_click listening_page"]
          C10_failed_generate_frame [of empty_response listening_page]
    by (simp add: c m listening_session enable_def empty_response_def or_else_def)
qed


subsection \<open>Interrupt controller: resuming the main track\<close>

lemma resumeMainAudio_loaded:
  assumes "audioPlayer st = Some a" and "truthy (currentMainAudioUrl st)"
  shows "resumeMainAudio st =
     st\<lparr>isPlayingInterruptReply := False,
        interruptAskForm := set_hidden (interruptAskForm st),
        interruptBtn := remove_hidden (interruptBtn st),
        interruptQuestionInput :=
          (case interruptQuestionInput st of None \<Rightarrow> None | Some _ \<Rightarrow> Some []),
        audioPlayer := Some (a\<lparr>src := currentMainAudioUrl st,
                                currentTime := savedResumeTime st,
                                paused := False\<rparr>),
        playLog := playLog st @
          [\<lparr>pc_src = currentMainAudioUrl st, pc_time = savedResumeTime st,
            pc_reply_flag = False\<rparr>]\<rparr>"
  using assms by (simp add: resumeMainAudio_def audio_play_def Let_def)

lemma answer_playing_page:
  "ask_response True (empty_response\<lparr>r_audio_url := Some ''/audio/answer1.mp3''\<rparr>)
     awaiting_answer_page =
   awaiting_answer_page
     \<lparr>interruptAskSubmit := Some False,
      isPlayingInterruptReply := True,
      audioPlayer := Some \<lparr>src = Some ''/audio/answer1.mp3'', currentTime = 25 / 2,
                            paused = False, audio_hidden = False\<rparr>,
      playLog := [\<lparr>pc_src = Some ''/audio/answer1.mp3'', pc_time = 25 / 2,
                   pc_reply_flag = True\<rparr>]\<rparr>"
  unfolding awaiting_answer_page_eq
  by (simp add: ask_response_def audio_play_def enable_def or_null_def empty_response_def
      Let_def listening_page_def fresh_page_def)

text \<open>
  C1: when the player reports \<open>ended\<close> while \<open>isPlayingInterruptReply\<close> is true (and a
  main audio URL is loaded, which the interrupt trigger requires before it captures the
  offset), the handler loads the main track, sets \<open>currentTime\<close> to \<open>savedResumeTime\<close>
  and calls \<open>play()\<close>; the flag is already false when \<open>play()\<close> is called;
  \<open>savedResumeTime\<close> itself is not changed; the interrupt trigger is made visible and the
  ask form hidden (for each of the two elements that the page has).
\<close>

theorem C1_answer_ended_resumes_main_track:
  assumes "audioPlayer st = Some a"
    and "isPlayingInterruptReply st"
    and "truthy (currentMainAudioUrl st)"
  shows "audioPlayer (audio_ended st) =
           Some (a\<lparr>src := currentMainAudioUrl st, currentTime := savedResumeTime st,
                   paused := False\<rparr>)
         \<and> playLog (audio_ended st) = playLog st @
             [\<lparr>pc_src = currentMainAudioUrl st, pc_time = savedResumeTime st,
               pc_reply_flag = False\<rparr>]
         \<and> isPlayingInterruptReply (audio_ended st) = False
         \<and> savedResumeTime (audio_ended st) = savedResumeTime st
         \<and> (interruptBtn st \<noteq> None \<longrightarrow> interruptBtn (audio_ended st) = Some False)
         \<and> (interruptAskForm st \<noteq> None \<longrightarrow> interruptAskForm (audio_ended st) = Some True)"
proof -
  have "audio_ended st = resumeMainAudio st"
    using assms by (simp add: audio_ended_def)
  then show ?thesis
    using assms by (simp add: resumeMainAudio_loaded hidden_present)
qed

text \<open>
  One interruption from the trigger to the end of the answer: the interrupt is clicked at
  12.5 s of the main track, the question is asked, the answer clip plays to its end at
  7.25 s, and the main track resumes at 12.5 s.
\<close>

theorem C1_answer_ended_resumes_main_track_witness:
  "map_option currentTime (audioPlayer listening_page) = Some (25 / 2)
   \<and> savedResumeTime (interrupt_click listening_page) = 25 / 2
   \<and> isPlayingInterruptReply
        (playback_reaches (29 / 4)
          (ask_response True (empty_response\<lparr>r_audio_url := Some ''/audio/answer1.mp3''\<rparr>)
             awaiting_answer_page))
   \<and> truthy (currentMainAudioUrl
        (playback_reaches (29 / 4)
          (ask_response True (empty_response\<lparr>r_audio_url := Some ''/audio/answer1.mp3''\<rparr>)
             awaiting_answer_page)))
   \<and> audioPlayer
        (audio_ended
          (playback_reaches (29 / 4)
            (ask_response True (empty_response\<lparr>r_audio_url := Some ''/audio/answer1.mp3''\<rparr>)
               awaiting_answer_page)))
       = Some \<lparr>src = Some ''/audio/ep1.mp3'', currentTime = 25 / 2, paused = False,
               audio_hidden = False\<rparr>
   \<and> isPlayingInterruptReply
        (audio_ended
          (playback_reaches (29 / 4)
            (ask_response True (empty_response\<lparr>r_audio_url := Some ''/audio/answer1.mp3''\<rparr>)
               awaiting_answer_page))) = False
   \<and> interruptBtn
        (audio_ended
          (playback_reaches (29 / 4)
            (ask_response True (empty_response\<lparr>r_audio_url := Some ''/audio/answer1.mp3''\<rparr>)
               awaiting_answer_page))) = Some False
   \<and> interruptAskForm
        (audio_ended
          (playback_reaches (29 / 4)
            (ask_response True (empty_response\<lparr>r_audio_url := Some ''/audio/answer1.mp3''\<rparr>)
               awaiting_answer_page))) = Some True"
proof -
  let ?st = "playback_reaches (29 / 4)
          (ask_response True (empty_response\<lparr>r_audio_url := Some ''/audio/answer1.mp3''\<rparr>)
             awaiting_answer_page)"
  have st: "?st = awaiting_answer_page
     \<lparr>interruptAskSubmit := Some False,
      isPlayingInterruptReply := True,
      audioPlayer := Some \<lparr>src = Some ''/audio/answer1.mp3'', currentTime = 29 / 4,
                            paused = False, audio_hidden = False\<rparr>,
      playLog := [\<lparr>pc_src = Some ''/audio/answer1.mp3'', pc_time = 25 / 2,
                   pc_reply_flag = True\<rparr>]\<rparr>"
    unfolding answer_playing_page by (simp add: playback_reaches_def)
  have a: "audioPlayer ?st = Some \<lparr>src = Some ''/audio/answer1.mp3'', currentTime = 29 / 4,
                            paused = False, audio_hidden = False\<rparr>"
    unfolding st by simp
  have f: "isPlayingInterruptReply ?st"
    unfolding st by simp
  have u: "currentMainAudioUrl ?st = Some ''/audio/ep1.mp3''"
    unfolding st by (simp add: awaiting_answer_page_eq listening_page_def fresh_page_def)
  have t: "truthy (currentMainAudioUrl ?st)"
    unfolding u by (simp add: truthy_def)
  have r: "savedResumeTime ?st = 25 / 2" "interruptBtn ?st = Some True"
      "interruptAskForm ?st = Some False"
    unfolding st by (simp_all add: awaiting_answer_page_eq)
  have l: "map_option currentTime (audioPlayer listening_page) = Some (25 / 2)"
    by (simp add: listening_page_def fresh_page_def)
  have i: "savedResumeTime (interrupt_click listening_page) = 25 / 2"
    unfolding listening_interrupt by simp
  show ?thesis
    using C1_answer_ended_resumes_main_track [OF a f t] f t l i
    by (simp add: u r)
qed


subsection \<open>Interrupt controller: the failure branches of the ask request\<close>

lemma awaiting_answer_player:
  "audioPlayer awaiting_answer_page =
     Some \<lparr>src = Some ''/audio/ep1.mp3'', currentTime = 25 / 2, paused = True,
            audio_hidden = False\<rparr>"
  "playLog awaiting_answer_page = []"
  "savedResumeTime awaiting_answer_page = 25 / 2"
  "currentMainAudioUrl awaiting_answer_page = Some ''/audio/ep1.mp3''"
  by (simp_all add: awaiting_answer_page_eq listening_page_def fresh_page_def)

lemma ask_failure_player:
  "audioPlayer (ask_response False data st) = audioPlayer st"
  "playLog (ask_response False data st) = playLog st"
  "audioPlayer (ask_network_error st) = audioPlayer st"
  "playLog (ask_network_error st) = playLog st"
  by (simp_all add: ask_response_def ask_network_error_def showError_eq Let_def)

lemma ask_no_audio_url_player:
  assumes "\<not> truthy (r_audio_url data)"
  shows "audioPlayer (ask_response True data st) = audioPlayer st"
    and "playLog (ask_response True data st) = playLog st"
    and "savedResumeTime (ask_response True data st) = savedResumeTime st"
  using assms
  by (simp_all add: ask_response_def truthy_def or_null_def Let_def split: option.splits)

lemma ask_failure_ui:
  "interruptBtn st \<noteq> None \<Longrightarrow> interruptBtn (ask_response False data st) = Some False"
  "interruptAskForm st \<noteq> None \<Longrightarrow> interruptAskForm (ask_response False data st) = Some True"
  "interruptBtn st \<noteq> None \<Longrightarrow> interruptBtn (ask_network_error st) = Some False"
  "interruptAskForm st \<noteq> None \<Longrightarrow> interruptAskForm (ask_network_error st) = Some True"
  "\<not> truthy (r_audio_url data) \<Longrightarrow> interruptBtn st \<noteq> None \<Longrightarrow>
     interruptBtn (ask_response True data st) = Some False"
  "\<not> truthy (r_audio_url data) \<Longrightarrow> interruptAskForm st \<noteq> None \<Longrightarrow>
     interruptAskForm (ask_response True data st) = Some True"
  by (simp_all add: ask_response_def ask_network_error_def showError_eq Let_def hidden_present
      truthy_def or_null_def split: option.splits)

text \<open>
  What each failure branch of an ask request does, for every page. The branch in which
  playback of the substitute clip is rejected calls \<open>resumeMainAudio\<close>: with a main
  audio URL loaded, the player gets that URL, \<open>currentTime\<close> is set to
  \<open>savedResumeTime\<close> and \<open>play()\<close> is called. The handlers of a failed request (a
  response that is not 2xx, a network error) and of a response without \<open>audio_url\<close>
  repeat only the two interface statements of \<open>resumeMainAudio\<close>: the player is left as
  it is and \<open>play()\<close> is not called.
\<close>

lemma ask_failure_branches:
  "(audioPlayer st = Some a \<and> truthy (currentMainAudioUrl st) \<longrightarrow>
      audioPlayer (answer_play_rejected st) =
        Some (a\<lparr>src := currentMainAudioUrl st, currentTime := savedResumeTime st,
                paused := False\<rparr>)
      \<and> playLog (answer_play_rejected st) = playLog st @
           [\<lparr>pc_src = currentMainAudioUrl st, pc_time = savedResumeTime st,
             pc_reply_flag = False\<rparr>])
   \<and> audioPlayer (ask_response False data st) = audioPlayer st
   \<and> playLog (ask_response False data st) = playLog st
   \<and> audioPlayer (ask_network_error st) = audioPlayer st
   \<and> playLog (ask_network_error st) = playLog st
   \<and> (\<not> truthy (r_audio_url data) \<longrightarrow>
        audioPlayer (ask_response True data st) = audioPlayer st
        \<and> playLog (ask_response True data st) = playLog st)"
proof -
  have "audioPlayer (answer_play_rejected st) =
          Some (a\<lparr>src := currentMainAudioUrl st, currentTime := savedResumeTime st,
                  paused := False\<rparr>)
        \<and> playLog (answer_play_rejected st) = playLog st @
             [\<lparr>pc_src = currentMainAudioUrl st, pc_time = savedResumeTime st,
               pc_reply_flag = False\<rparr>]"
    if "audioPlayer st = Some a" "truthy (currentMainAudioUrl st)"
    using that
      resumeMainAudio_loaded [of "st\<lparr>isPlayingInterruptReply := False\<rparr>" a]
    by (simp add: answer_play_rejected_def)
  then show ?thesis
    by (simp add: ask_failure_player ask_no_audio_url_player)
qed

text \<open>
  The sibling branch on the waiting page: the answer arrives, the browser refuses to
  play it, and the main track is resumed at 12.5 s.
\<close>

lemma rejected_answer_resumes_main_track:
  "audioPlayer
     (ask_response True (empty_response\<lparr>r_audio_url := Some ''/audio/answer1.mp3''\<rparr>)
        awaiting_answer_page)
     = Some \<lparr>src = Some ''/audio/answer1.mp3'', currentTime = 25 / 2, paused = False,
             audio_hidden = False\<rparr>
   \<and> audioPlayer
       (answer_play_rejected
         (ask_response True (empty_response\<lparr>r_audio_url := Some ''/audio/answer1.mp3''\<rparr>)
            awaiting_answer_page))
     = Some \<lparr>src = Some ''/audio/ep1.mp3'', currentTime = 25 / 2, paused = False,
             audio_hidden = False\<rparr>
   \<and> playLog
       (answer_play_rejected
         (ask_response True (empty_response\<lparr>r_audio_url := Some ''/audio/answer1.mp3''\<rparr>)
            awaiting_answer_page))
     = [\<lparr>pc_src = Some ''/audio/answer1.mp3'', pc_time = 25 / 2, pc_reply_flag = True\<rparr>,
        \<lparr>pc_src = Some ''/audio/ep1.mp3'', pc_time = 25 / 2, pc_reply_flag = False\<rparr>]"
proof -
  let ?st = "ask_response True (empty_response\<lparr>r_audio_url := Some ''/audio/answer1.mp3''\<rparr>)
        awaiting_answer_page"
  have a: "audioPlayer ?st = Some \<lparr>src = Some ''/audio/answer1.mp3'', currentTime = 25 / 2,
      paused = False, audio_hidden = False\<rparr>"
    unfolding answer_playing_page by simp
  have u: "currentMainAudioUrl ?st = Some ''/audio/ep1.mp3''"
    unfolding answer_playing_page by (simp add: awaiting_answer_player)
  have t: "truthy (currentMainAudioUrl ?st)"
    unfolding u by (simp add: truthy_def)
  have r: "savedResumeTime ?st = 25 / 2"
      "playLog ?st = [\<lparr>pc_src = Some ''/audio/answer1.mp3'', pc_time = 25 / 2,
                       pc_reply_flag = True\<rparr>]"
    unfolding answer_playing_page by (simp_all add: awaiting_answer_player)
  show ?thesis
    using ask_failure_branches [of ?st _ empty_response] a t
    by (simp add: u r)
qed

text \<open>
  C2: every ask request that ends in a failure branch should leave the main audio
  restored at the saved offset and resumed by a call of \<open>play()\<close>. The script does this
  in one failure branch only (rejected playback, above). On the page that waits for an
  answer, with the main track paused at 12.5 s by the interrupt, each of the other three
  branches (a response that is not 2xx, a network error, a 2xx response without
  \<open>audio_url\<close>) returns the interface to idle, trigger visible and ask form hidden, but
  makes no call of \<open>play()\<close> and leaves the player paused.
\<close>

theorem C2_failed_ask_leaves_main_audio_paused:
  "playLog awaiting_answer_page = []
   \<and> audioPlayer awaiting_answer_page =
       Some \<lparr>src = Some ''/audio/ep1.mp3'', currentTime = 25 / 2, paused = True,
              audio_hidden = False\<rparr>
   \<and> playLog (ask_response False empty_response awaiting_answer_page) = []
   \<and> audioPlayer (ask_response False empty_response awaiting_answer_page) =
       Some \<lparr>src = Some ''/audio/ep1.mp3'', currentTime = 25 / 2, paused = True,
              audio_hidden = False\<rparr>
   \<and> interruptBtn (ask_response False empty_response awaiting_answer_page) = Some False
   \<and> interruptAskForm (ask_response False empty_response awaiting_answer_page) = Some True
   \<and> playLog (ask_network_error awaiting_answer_page) = []
   \<and> audioPlayer (ask_network_error awaiting_answer_page) =
       Some \<lparr>src = Some ''/audio/ep1.mp3'', currentTime = 25 / 2, paused = True,
              audio_hidden = False\<rparr>
   \<and> interruptBtn (ask_network_error awaiting_answer_page) = Some False
   \<and> interruptAskForm (ask_network_error awaiting_answer_page) = Some True
   \<and> playLog (ask_response True empty_response awaiting_answer_page) = []
   \<and> audioPlayer (ask_response True empty_response awaiting_answer_page) =
       Some \<lparr>src = Some ''/audio/ep1.mp3'', currentTime = 25 / 2, paused = True,
              audio_hidden = False\<rparr>
   \<and> interruptBtn (ask_response True empty_response awaiting_answer_page) = Some False
   \<and> interruptAskForm (ask_response True empty_response awaiting_answer_page) = Some True"
proof -
  have e: "\<not> truthy (r_audio_url empty_response)"
    by (simp add: empty_response_def truthy_def)
  have b: "interruptBtn awaiting_answer_page \<noteq> None"
      "interruptAskForm awaiting_answer_page \<noteq> None"
    by (simp_all add: awaiting_answer_page_eq)
  show ?thesis
    using e b
    by (simp add: ask_failure_player ask_no_audio_url_player ask_failure_ui
        awaiting_answer_player)
qed

subsection \<open>Progress timers\<close>

lemma showResult_eq:
  "showResult script audioUrl episodeTitle st =
     st\<lparr>timers := filter (\<lambda>tm. timer_id tm \<notin> set (progressTimeouts st)) (timers st) @
          [\<lparr>timer_id = nextTimerId st, timer_delay = PROGRESS_TRANSITION_MS,
            timer_run = ResultTransition script audioUrl episodeTitle\<rparr>],
        progressTimeouts := [],
        progressBar_width := 100,
        progressBar_valuenow := 100,
        progressStatus_text := ''Ready!'',
        currentEpisodeScript := Some (case script of None \<Rightarrow> [] | Some lines \<Rightarrow> lines),
        currentMainAudioUrl := or_null audioUrl,
        nextTimerId := Suc (nextTimerId st)\<rparr>"
  by (simp add: showResult_def clear_progress_timeouts_eq setProgress_def setTimeout_def Let_def)

text \<open>
  Both \<open>showError\<close> and \<open>showResult\<close> cancel every timer whose handle is in
  \<open>progressTimeouts\<close>.
\<close>

lemma tracked_timers_cancelled:
  "timer_id ` set (timers (showError msg st)) \<inter> set (progressTimeouts st) = {}"
  "timer_id ` set (butlast (timers (showResult script audioUrl episodeTitle st)))
     \<inter> set (progressTimeouts st) = {}"
  by (auto simp add: showError_eq showResult_eq)

lemma result_arrived_page_eq:
  "result_arrived_page =
     listening_page
       \<lparr>fileInput_files := [],
        errorPanel_hidden := True,
        generateEpisodeBtn := Some True,
        progressSection_hidden := False,
        sent := [GenerateEpisodeRequest (Some ''u1'') (Some 1) []],
        timers := [\<lparr>timer_id = 1, timer_delay = 2000,
                    timer_run = ResultTransition (Some example_script) (Some ''/audio/ep2.mp3'')
                                  (Some ''Chapter one'')\<rparr>],
        progressTimeouts := [],
        progressBar_width := 100,
        progressBar_valuenow := 100,
        progressStatus_text := ''Ready!'',
        currentEpisodeScript := Some example_script,
        currentMainAudioUrl := Some ''/audio/ep2.mp3'',
        nextTimerId := 2\<rparr>"
proof -
  have p: "parseInt10 ''1'' = Some 1"
    by (simp add: parseInt10_def is_whitespace_def is_digit_def digits_value_def Let_def)
  have c: "generate_click (listening_page\<lparr>fileInput_files := []\<rparr>) =
      listening_page\<lparr>fileInput_files := [],
        errorPanel_hidden := True, generateEpisodeBtn := Some True,
        progressSection_hidden := False, progressBar_width := 30, progressBar_valuenow := 30,
        progressStatus_text := ''Generating episode...'',
        sent := [GenerateEpisodeRequest (Some ''u1'') (Some 1) []]\<rparr>"
    by (simp add: generate_click_def hideError_def setProgress_def Let_def truthy_def p
        listening_page_def fresh_page_def)
  show ?thesis
    unfolding result_arrived_page_def c
    by (simp add: generate_response_def showResult_eq second_episode_def empty_response_def
        or_null_def PROGRESS_TRANSITION_MS_def listening_page_def fresh_page_def)
qed

lemma error_after_result_page_eq:
  "error_after_result_page =
     result_arrived_page
       \<lparr>errorMessage_text := ''Please select a file.'',
        errorPanel_hidden := False,
        resultPanel_hidden := True,
        progressSection_hidden := True,
        generateEpisodeBtn := Some False\<rparr>"
proof -
  have f: "fileInput_files result_arrived_page = []"
      "progressTimeouts result_arrived_page = []"
      "generateEpisodeBtn result_arrived_page = Some True"
      "submitBtn_hidden result_arrived_page = False"
      "submitBtn_disabled result_arrived_page = False"
    by (simp_all add: result_arrived_page_eq listening_page_def fresh_page_def)
  have "showError ''Please select a file.'' result_arrived_page =
     result_arrived_page
       \<lparr>errorMessage_text := ''Please select a file.'',
        errorPanel_hidden := False,
        resultPanel_hidden := True,
        progressSection_hidden := True,
        submitBtn_hidden := False,
        submitBtn_disabled := False,
        generateEpisodeBtn := Some False,
        timers := timers result_arrived_page,
        progressTimeouts := []\<rparr>"
    by (simp add: showError_eq f enable_def)
  also have "\<dots> = result_arrived_page
       \<lparr>errorMessage_text := ''Please select a file.'',
        errorPanel_hidden := False,
        resultPanel_hidden := True,
        progressSection_hidden := True,
        generateEpisodeBtn := Some False\<rparr>"
    using f by (cases result_arrived_page) simp
  finally show ?thesis
    by (simp add: error_after_result_page_def form_submit_def validateFile_def f)
qed

text \<open>
  C5: the timers listed in \<open>progressTimeouts\<close> are cancelled when an error is shown and
  when a result arrives, but the transition timer that \<open>showResult\<close> starts is not
  listed there. Here a result arrives and starts timer 1; an error is shown before it
  fires; timer 1 is still pending after the error, and when it fires it hides the error
  panel, shows the result panel and starts the stagger timers 2 and 3 of the abandoned
  result.
\<close>

theorem C5_transition_timer_survives_error:
  "map timer_id (timers result_arrived_page) = [1]
   \<and> progressTimeouts result_arrived_page = []
   \<and> errorPanel_hidden error_after_result_page = False
   \<and> resultPanel_hidden error_after_result_page = True
   \<and> map timer_id (timers error_after_result_page) = [1]
   \<and> errorPanel_hidden (timer_fires 1 error_after_result_page) = True
   \<and> resultPanel_hidden (timer_fires 1 error_after_result_page) = False
   \<and> map timer_id (timers (timer_fires 1 error_after_result_page)) = [2, 3]
   \<and> progressTimeouts (timer_fires 1 error_after_result_page) = [2, 3]"
proof -
  have before: "map timer_id (timers result_arrived_page) = [1]"
      "progressTimeouts result_arrived_page = []"
    by (simp_all add: result_arrived_page_eq)
  have shown: "errorPanel_hidden error_after_result_page = False"
      "resultPanel_hidden error_after_result_page = True"
      "map timer_id (timers error_after_result_page) = [1]"
    by (simp_all add: error_after_result_page_eq result_arrived_page_eq)
  have fired: "timer_fires 1 error_after_result_page =
      result_transition (Some example_script) (Some ''/audio/ep2.mp3'') (Some ''Chapter one'')
        (error_after_result_page\<lparr>timers := []\<rparr>)"
    by (simp add: timer_fires_def run_callback_def clearTimeout_def
        error_after_result_page_eq result_arrived_page_eq)
  have after: "errorPanel_hidden (timer_fires 1 error_after_result_page) = True"
      "resultPanel_hidden (timer_fires 1 error_after_result_page) = False"
      "map timer_id (timers (timer_fires 1 error_after_result_page)) = [2, 3]"
      "progressTimeouts (timer_fires 1 error_after_result_page) = [2, 3]"
    unfolding fired
    by (simp_all add: result_transition_def Let_def truthy_def has_lines_def example_script_def
        setTimeout_def error_after_result_page_eq result_arrived_page_eq
        listening_page_def fresh_page_def)
  show ?thesis using before shown after by simp
qed


text \<open>
  The \<open>showResult\<close> of the first-generation script has the same statement: the transition
  timer it starts is not listed in \<open>progressTimeouts\<close>, so a \<open>showError\<close> that follows
  cancels nothing. (On that page the submit button stays hidden until the transition
  timer fires.)
\<close>

lemma transition_timer_untracked_v1:
  "timers (showResult_v1 script audioUrl st) =
     filter (\<lambda>tm. timer_id tm \<notin> set (progressTimeouts st)) (timers st) @
       [\<lparr>timer_id = nextTimerId st, timer_delay = PROGRESS_TRANSITION_MS,
         timer_run = ResultTransitionV1 script audioUrl\<rparr>]
   \<and> progressTimeouts (showResult_v1 script audioUrl st) = []
   \<and> timers (showError_v1 msg (showResult_v1 script audioUrl st)) =
       timers (showResult_v1 script audioUrl st)"
  by (simp add: showResult_v1_def showError_v1_def clear_progress_timeouts_eq setProgress_def
      setTimeout_def Let_def)

end
